theory Spec2Isabelle
  imports Complex_Main
begin

section \<open>Python values and exceptions\<close>

text \<open>
  The exceptions the modelled code raises or lets through. \<open>RuntimeError\<close> carries its
  message; \<open>NotAnInt\<close> marks a geometry value (\<open>x\<close>, \<open>y\<close>, \<open>width\<close>, \<open>height\<close>, annotated
  \<open>int\<close> in the source) that reached a marker with another type: what the toolkit or
  \<open>max\<close> raises then depends on the value, and no theorem below rests on it.
\<close>

datatype py_error =
    TypeError
  | ValueError
  | OverflowError
  | AttributeError
  | OSError
  | JSONDecodeError
  | UnicodeDecodeError
  | RecursionError
  | TclError
  | RuntimeError string
  | NotAnInt

text \<open>A Python float: a finite value (every finite float is a rational) or a special one.\<close>

datatype py_float = Finite rat | PosInf | NegInf | NaN

text \<open>
  What \<open>json.load\<close> returns: \<open>None\<close>, \<open>bool\<close>, \<open>int\<close>, \<open>float\<close>, \<open>str\<close>, \<open>list\<close>, \<open>dict\<close>.
  A \<open>dict\<close> is an association list in insertion order.
\<close>

datatype json =
    JNull
  | JBool bool
  | JInt int
  | JFloat py_float
  | JStr string
  | JArr "json list"
  | JObj "(string \<times> json) list"

text \<open>Truth value of an object, as \<open>if v:\<close> and \<open>a or b\<close> test it.\<close>

fun truthy :: "json \<Rightarrow> bool" where
  "truthy JNull = False"
| "truthy (JBool b) = b"
| "truthy (JInt i) = (i \<noteq> 0)"
| "truthy (JFloat f) = (f \<noteq> Finite 0)"
| "truthy (JStr s) = (s \<noteq> [])"
| "truthy (JArr xs) = (xs \<noteq> [])"
| "truthy (JObj kvs) = (kvs \<noteq> [])"

text \<open>\<open>isinstance(v, dict)\<close>.\<close>

fun is_dict :: "json \<Rightarrow> bool" where
  "is_dict (JObj kvs) = True"
| "is_dict v = False"

text \<open>
  \<open>d.get(key, default)\<close>: only a \<open>dict\<close> has the method; on any other value the
  attribute lookup raises \<open>AttributeError\<close>.
\<close>

fun dict_get :: "json \<Rightarrow> string \<Rightarrow> json \<Rightarrow> py_error + json" where
  "dict_get (JObj kvs) key dflt = Inr (case map_of kvs key of None \<Rightarrow> dflt | Some v \<Rightarrow> v)"
| "dict_get v key dflt = Inl AttributeError"

text \<open>
  \<open>int(s)\<close> for a string, base 10: optional surrounding whitespace, an optional sign,
  then decimal digits, single underscores allowed between digits. A string with more
  digits than \<open>max_str_digits\<close> (the interpreter's default limit,
  \<open>sys.int_info.default_max_str_digits\<close>; the sign and the underscores do not count) is
  refused with \<open>ValueError\<close> like any other string that is not a number. Strings are
  byte strings here: the digits and spaces outside ASCII that Python also accepts are
  not modelled.
\<close>

definition is_space :: "char \<Rightarrow> bool" where
  "is_space c =
     (c \<in> set [CHR '' '', CHR 0x09, CHR 0x0A, CHR 0x0B, CHR 0x0C, CHR 0x0D,
                CHR 0x1C, CHR 0x1D, CHR 0x1E, CHR 0x1F])"

definition is_digit :: "char \<Rightarrow> bool" where
  "is_digit c = (48 \<le> (of_char c :: nat) \<and> (of_char c :: nat) \<le> 57)"

definition digit_val :: "char \<Rightarrow> int" where
  "digit_val c = int (of_char c :: nat) - 48"

fun digits_val :: "int \<Rightarrow> bool \<Rightarrow> string \<Rightarrow> int option" where
  "digits_val acc after_digit [] = (if after_digit then Some acc else None)"
| "digits_val acc after_digit (c # cs) =
     (if is_digit c then digits_val (acc * 10 + digit_val c) True cs
      else if c = CHR ''_'' \<and> after_digit then digits_val acc False cs
      else None)"

definition strip :: "string \<Rightarrow> string" where
  "strip s = rev (dropWhile is_space (rev (dropWhile is_space s)))"

definition max_str_digits :: nat where
  "max_str_digits = 4300"

definition int_of_str :: "string \<Rightarrow> int option" where
  "int_of_str s =
     (case strip s of
        [] \<Rightarrow> None
      | c # cs \<Rightarrow>
          if length (filter is_digit (c # cs)) > max_str_digits then None
          else if c = CHR ''-'' then map_option uminus (digits_val 0 False cs)
          else if c = CHR ''+'' then digits_val 0 False cs
          else digits_val 0 False (c # cs))"

text \<open>
  \<open>int(v)\<close>: an \<open>int\<close> is returned as it is, a \<open>bool\<close> is 0 or 1, a finite \<open>float\<close> is
  truncated towards zero, \<open>nan\<close> raises \<open>ValueError\<close> and an infinity \<open>OverflowError\<close>,
  a string is parsed or raises \<open>ValueError\<close>, and \<open>None\<close>, a \<open>list\<close> and a \<open>dict\<close> raise
  \<open>TypeError\<close>.
\<close>

fun py_int :: "json \<Rightarrow> py_error + int" where
  "py_int (JInt i) = Inr i"
| "py_int (JBool b) = Inr (if b then 1 else 0)"
| "py_int (JFloat (Finite q)) = Inr (if 0 \<le> q then \<lfloor>q\<rfloor> else \<lceil>q\<rceil>)"
| "py_int (JFloat NaN) = Inl ValueError"
| "py_int (JFloat PosInf) = Inl OverflowError"
| "py_int (JFloat NegInf) = Inl OverflowError"
| "py_int (JStr s) = (case int_of_str s of None \<Rightarrow> Inl ValueError | Some i \<Rightarrow> Inr i)"
| "py_int JNull = Inl TypeError"
| "py_int (JArr xs) = Inl TypeError"
| "py_int (JObj kvs) = Inl TypeError"

section \<open>The windowing toolkit as the handlers see it\<close>

text \<open>
  A pointer event carries widget-local (\<open>event.x\<close>, \<open>event.y\<close>) and absolute screen
  coordinates (\<open>event.x_root\<close>, \<open>event.y_root\<close>).
\<close>

record event =
  ev_x :: int
  ev_y :: int
  x_root :: int
  y_root :: int

text \<open>
  What the toolkit reports while a handler runs: the screen size
  (\<open>root.winfo_screenwidth()\<close>, \<open>root.winfo_screenheight()\<close>) and the position of the
  marker's window (\<open>overlay.winfo_x()\<close>, \<open>overlay.winfo_y()\<close>), and the size a point
  marker's label asks for (\<open>label_frame.winfo_reqwidth()\<close>, \<open>winfo_reqheight()\<close>).
\<close>

record toolkit =
  winfo_screenwidth :: int
  winfo_screenheight :: int
  winfo_x :: int
  winfo_y :: int
  winfo_reqwidth :: int
  winfo_reqheight :: int

section \<open>DraggableOverlay: the rectangle marker\<close>

text \<open>
  The fields of \<open>DraggableOverlay\<close> that carry geometry and interaction state, named
  as in the source with the prefix \<open>ov_\<close>. The colours, the font and the alpha value
  are left out: no handler reads them.
  \<open>ov_window\<close> is \<open>self.overlay\<close>, the Toplevel window, with the geometry
  \<open>WxH+X+Y\<close> last set on it (width, height, x, y); the canvas lives and dies with it.
  \<open>ov_label_widget\<close> and \<open>ov_resize_handle\<close> say whether the attribute is not \<open>None\<close>.
  \<open>ov_callback\<close> is \<open>self.callback\<close>: the manager's closure \<open>_callback\<close>, given by the
  id and label it captured. \<open>ov_notified\<close> logs each call of the callback with its
  arguments.
\<close>

record overlay =
  ov_x :: int
  ov_y :: int
  ov_width :: int
  ov_height :: int
  ov_label :: json
  ov_callback :: "(string \<times> json) option"
  ov_draggable :: bool
  ov_resizable :: bool
  ov_resize_handle_size :: int
  ov_dragging :: bool
  ov_resizing :: bool
  ov_start_x :: int
  ov_start_y :: int
  ov_offset_x :: int
  ov_offset_y :: int
  ov_start_width :: int
  ov_start_height :: int
  ov_window :: "(int \<times> int \<times> int \<times> int) option"
  ov_label_widget :: bool
  ov_resize_handle :: bool
  ov_visible :: bool
  ov_notified :: "(int \<times> int \<times> int \<times> int) list"

text \<open>The style keywords that reach the interaction logic, with the constructor's defaults.\<close>

record style =
  draggable :: bool
  resizable :: bool
  resize_handle_size :: int

definition default_style :: style where
  "default_style = \<lparr>draggable = True, resizable = True, resize_handle_size = 10\<rparr>"

text \<open>\<open>DraggableOverlay.__init__\<close>: the arguments are stored as given.\<close>

definition DraggableOverlay ::
  "int \<Rightarrow> int \<Rightarrow> int \<Rightarrow> int \<Rightarrow> json \<Rightarrow> (string \<times> json) option \<Rightarrow> style \<Rightarrow> overlay" where
  "DraggableOverlay x y width height label on_rect_update st =
     \<lparr>ov_x = x, ov_y = y, ov_width = width, ov_height = height, ov_label = label,
      ov_callback = on_rect_update,
      ov_draggable = draggable st, ov_resizable = resizable st,
      ov_resize_handle_size = resize_handle_size st,
      ov_dragging = False, ov_resizing = False,
      ov_start_x = 0, ov_start_y = 0, ov_offset_x = 0, ov_offset_y = 0,
      ov_start_width = 0, ov_start_height = 0,
      ov_window = None, ov_label_widget = False, ov_resize_handle = False,
      ov_visible = False, ov_notified = []\<rparr>"

text \<open>\<open>_update_geometry\<close>: sets the window's geometry, if there is a window.\<close>

definition update_geometry :: "overlay \<Rightarrow> overlay" where
  "update_geometry s =
     (case ov_window s of
        None \<Rightarrow> s
      | Some g \<Rightarrow> s\<lparr>ov_window := Some (ov_width s, ov_height s, ov_x s, ov_y s)\<rparr>)"

text \<open>\<open>_create_label\<close>: returns at once without a canvas.\<close>

definition create_label :: "overlay \<Rightarrow> overlay" where
  "create_label s = (if ov_window s = None then s else s\<lparr>ov_label_widget := True\<rparr>)"

text \<open>\<open>_create_resize_handle\<close>: returns at once without a canvas or when not resizable.\<close>

definition create_resize_handle :: "overlay \<Rightarrow> overlay" where
  "create_resize_handle s =
     (if ov_window s = None \<or> \<not> ov_resizable s then s else s\<lparr>ov_resize_handle := True\<rparr>)"

text \<open>\<open>_notify_callback\<close>: calls the callback, if one is set; what it raises is printed.\<close>

definition notify_callback :: "overlay \<Rightarrow> overlay" where
  "notify_callback s =
     (case ov_callback s of
        None \<Rightarrow> s
      | Some cb \<Rightarrow>
          s\<lparr>ov_notified := ov_notified s @ [(ov_x s, ov_y s, ov_width s, ov_height s)]\<rparr>)"

definition "show" :: "overlay \<Rightarrow> overlay" where
  "show s =
     (if ov_visible s then s
      else
        let s1 = s\<lparr>ov_window := Some (ov_width s, ov_height s, ov_x s, ov_y s)\<rparr>;
            s2 = (if truthy (ov_label s1) then create_label s1 else s1);
            s3 = (if ov_resizable s2 then create_resize_handle s2 else s2)
        in s3\<lparr>ov_visible := True\<rparr>)"

definition hide :: "overlay \<Rightarrow> overlay" where
  "hide s =
     (if \<not> ov_visible s \<or> ov_window s = None then s
      else s\<lparr>ov_window := None, ov_label_widget := False, ov_resize_handle := False,
             ov_visible := False\<rparr>)"

definition update_position :: "int \<Rightarrow> int \<Rightarrow> bool \<Rightarrow> overlay \<Rightarrow> overlay" where
  "update_position x y notify s =
     (let s1 = s\<lparr>ov_x := x, ov_y := y\<rparr>
      in if ov_visible s1
         then (let s2 = update_geometry s1 in if notify then notify_callback s2 else s2)
         else s1)"

definition update_size :: "int \<Rightarrow> int \<Rightarrow> bool \<Rightarrow> overlay \<Rightarrow> overlay" where
  "update_size width height notify s =
     (let min_width = 50; min_height = 50;
          width = max min_width width;
          height = max min_height height;
          s1 = s\<lparr>ov_width := width, ov_height := height\<rparr>
      in if ov_visible s1
         then (let s2 = update_geometry s1;
                   s3 = (if ov_label_widget s2 then create_label s2 else s2);
                   s4 = (if ov_resizable s3 then create_resize_handle s3 else s3)
               in if notify then notify_callback s4 else s4)
         else s1)"

definition update_label :: "json \<Rightarrow> overlay \<Rightarrow> overlay" where
  "update_label label s =
     (let s1 = s\<lparr>ov_label := label\<rparr>
      in if ov_visible s1
         then (if truthy (ov_label s1) then create_label s1
               else if ov_label_widget s1 then s1\<lparr>ov_label_widget := False\<rparr>
               else s1)
         else s1)"

definition is_in_resize_handle :: "overlay \<Rightarrow> int \<Rightarrow> int \<Rightarrow> bool" where
  "is_in_resize_handle s x y =
     (if \<not> ov_resizable s then False
      else (let handle_size = ov_resize_handle_size s
            in x \<ge> ov_width s - handle_size \<and> y \<ge> ov_height s - handle_size))"

definition on_mouse_press :: "toolkit \<Rightarrow> event \<Rightarrow> overlay \<Rightarrow> overlay" where
  "on_mouse_press tk ev s =
     (if is_in_resize_handle s (ev_x ev) (ev_y ev) then s
      else if ov_draggable s \<and> \<not> ov_resizing s
      then s\<lparr>ov_dragging := True,
             ov_start_x := x_root ev, ov_start_y := y_root ev,
             ov_offset_x := winfo_x tk, ov_offset_y := winfo_y tk\<rparr>
      else s)"

definition on_resize_press :: "toolkit \<Rightarrow> event \<Rightarrow> overlay \<Rightarrow> overlay" where
  "on_resize_press tk ev s =
     (if \<not> ov_resizable s then s
      else s\<lparr>ov_dragging := False, ov_resizing := True,
             ov_start_x := x_root ev, ov_start_y := y_root ev,
             ov_start_width := ov_width s, ov_start_height := ov_height s,
             ov_offset_x := winfo_x tk, ov_offset_y := winfo_y tk\<rparr>)"

definition on_resize_drag :: "toolkit \<Rightarrow> event \<Rightarrow> overlay \<Rightarrow> overlay" where
  "on_resize_drag tk ev s =
     (if \<not> ov_resizing s \<or> \<not> ov_resizable s then s
      else
        let s1 = s\<lparr>ov_dragging := False\<rparr>;
            delta_x = x_root ev - ov_start_x s1;
            delta_y = y_root ev - ov_start_y s1;
            new_width = ov_start_width s1 + delta_x;
            new_height = ov_start_height s1 + delta_y;
            min_width = 50; min_height = 50;
            new_width = max min_width new_width;
            new_height = max min_height new_height;
            screen_width = winfo_screenwidth tk;
            screen_height = winfo_screenheight tk;
            max_width = screen_width - ov_offset_x s1;
            max_height = screen_height - ov_offset_y s1;
            new_width = min new_width max_width;
            new_height = min new_height max_height;
            s2 = update_geometry (s1\<lparr>ov_width := new_width, ov_height := new_height\<rparr>)
        in if ov_label_widget s2 then create_label s2 else s2)"

definition on_mouse_drag_global :: "toolkit \<Rightarrow> event \<Rightarrow> overlay \<Rightarrow> overlay" where
  "on_mouse_drag_global tk ev s =
     (if ov_resizing s then on_resize_drag tk ev s
      else if ov_dragging s \<and> ov_draggable s
      then
        let delta_x = x_root ev - ov_start_x s;
            delta_y = y_root ev - ov_start_y s;
            new_x = ov_offset_x s + delta_x;
            new_y = ov_offset_y s + delta_y;
            screen_width = winfo_screenwidth tk;
            screen_height = winfo_screenheight tk;
            new_x = max 0 (min new_x (screen_width - ov_width s));
            new_y = max 0 (min new_y (screen_height - ov_height s))
        in update_geometry (s\<lparr>ov_x := new_x, ov_y := new_y\<rparr>)
      else s)"

definition on_mouse_release_global :: "event \<Rightarrow> overlay \<Rightarrow> overlay" where
  "on_mouse_release_global ev s =
     (if ov_resizing s
      then
        let s1 = notify_callback (s\<lparr>ov_resizing := False, ov_dragging := False\<rparr>)
        in if ov_resizable s1 then create_resize_handle s1 else s1
      else if ov_dragging s
      then notify_callback (s\<lparr>ov_dragging := False, ov_resizing := False\<rparr>)
      else s)"

definition on_resize_release :: "event \<Rightarrow> overlay \<Rightarrow> overlay" where
  "on_resize_release ev s = on_mouse_release_global ev s"

definition get_position :: "overlay \<Rightarrow> int \<times> int \<times> int \<times> int" where
  "get_position s = (ov_x s, ov_y s, ov_width s, ov_height s)"

text \<open>\<open>create_overlay\<close>: construct, then show.\<close>

definition create_overlay ::
  "int \<Rightarrow> int \<Rightarrow> int \<Rightarrow> int \<Rightarrow> json \<Rightarrow> (string \<times> json) option \<Rightarrow> style \<Rightarrow> overlay" where
  "create_overlay x y width height label on_rect_update st =
     show (DraggableOverlay x y width height label on_rect_update st)"

text \<open>
  How the toolkit delivers one pointer event to a shown rectangle, by the bindings of
  \<open>_bind_events\<close> and \<open>_create_resize_handle\<close>. The canvas binds press, motion and
  release to \<open>_on_mouse_press\<close>, \<open>_on_mouse_drag_global\<close> and \<open>_on_mouse_release_global\<close>;
  the handle item binds them to \<open>_on_resize_press\<close>, \<open>_on_resize_drag\<close> and
  \<open>_on_resize_release\<close>. When the event belongs to the handle item (\<open>on_handle\<close>) the
  item's binding runs first and the canvas's binding runs after it. A hidden marker has
  no window and receives nothing.
\<close>

datatype pointer = Press | Motion | Release

definition deliver :: "toolkit \<Rightarrow> bool \<Rightarrow> pointer \<Rightarrow> event \<Rightarrow> overlay \<Rightarrow> overlay" where
  "deliver tk on_handle p ev s =
     (if ov_window s = None then s
      else
        let s1 = (if on_handle \<and> ov_resize_handle s
                  then (case p of
                          Press \<Rightarrow> on_resize_press tk ev s
                        | Motion \<Rightarrow> on_resize_drag tk ev s
                        | Release \<Rightarrow> on_resize_release ev s)
                  else s)
        in (case p of
              Press \<Rightarrow> on_mouse_press tk ev s1
            | Motion \<Rightarrow> on_mouse_drag_global tk ev s1
            | Release \<Rightarrow> on_mouse_release_global ev s1))"

text \<open>A sequence of pointer events, each with what the toolkit reports when it is handled.\<close>

fun deliver_all :: "(toolkit \<times> bool \<times> pointer \<times> event) list \<Rightarrow> overlay \<Rightarrow> overlay" where
  "deliver_all [] s = s"
| "deliver_all ((tk, h, p, ev) # es) s = deliver_all es (deliver tk h p ev s)"

text \<open>
  The specification's account of the update callback over such a sequence, to compare
  the handlers with: one call for each release that ends a drag or a resize of a shown
  marker with a callback, with the geometry the marker has when the release arrives,
  and no call at any other event.
\<close>

fun release_calls ::
  "(toolkit \<times> bool \<times> pointer \<times> event) list \<Rightarrow> overlay \<Rightarrow> (int \<times> int \<times> int \<times> int) list" where
  "release_calls [] s = []"
| "release_calls ((tk, h, p, ev) # es) s =
     (if p = Release \<and> ov_window s \<noteq> None \<and> (ov_dragging s \<or> ov_resizing s)
         \<and> ov_callback s \<noteq> None
      then [get_position s] else [])
     @ release_calls es (deliver tk h p ev s)"

section \<open>DraggablePoint: the point marker\<close>

text \<open>
  The fields of \<open>DraggablePoint\<close>, named as in the source with the prefix \<open>pt_\<close>.
  \<open>pt_window\<close> is the Toplevel window with its geometry (width, height, x, y);
  \<open>pt_notified\<close> logs each call of the callback.
\<close>

record point =
  pt_x :: int
  pt_y :: int
  pt_label :: json
  pt_draggable :: bool
  pt_callback :: "(string \<times> json) option"
  pt_point_size :: int
  pt_label_offset_x :: int
  pt_label_offset_y :: int
  pt_dragging :: bool
  pt_start_x :: int
  pt_start_y :: int
  pt_offset_x :: int
  pt_offset_y :: int
  pt_window_size :: int
  pt_window :: "(int \<times> int \<times> int \<times> int) option"
  pt_label_widget :: bool
  pt_visible :: bool
  pt_notified :: "(int \<times> int) list"

text \<open>
  \<open>DraggablePoint.__init__\<close>: the window is sized to hold the disc and the label offset.
\<close>

definition DraggablePoint ::
  "int \<Rightarrow> int \<Rightarrow> json \<Rightarrow> bool \<Rightarrow> (string \<times> json) option \<Rightarrow> int \<Rightarrow> int \<Rightarrow> int \<Rightarrow> point" where
  "DraggablePoint x y label drag callback point_size label_offset_x label_offset_y =
     (let min_size = max 100 (point_size * 4);
          label_margin = max \<bar>label_offset_x\<bar> \<bar>label_offset_y\<bar> + 50
      in \<lparr>pt_x = x, pt_y = y, pt_label = label, pt_draggable = drag,
          pt_callback = callback, pt_point_size = point_size,
          pt_label_offset_x = label_offset_x, pt_label_offset_y = label_offset_y,
          pt_dragging = False, pt_start_x = 0, pt_start_y = 0,
          pt_offset_x = 0, pt_offset_y = 0,
          pt_window_size = max min_size (label_margin * 2),
          pt_window = None, pt_label_widget = False, pt_visible = False,
          pt_notified = []\<rparr>)"

text \<open>
  \<open>_create_label\<close> of the point: places the label; with \<open>allow_resize\<close> the window grows
  to hold it and is re-centred on the point.
\<close>

definition pt_create_label :: "toolkit \<Rightarrow> bool \<Rightarrow> point \<Rightarrow> point" where
  "pt_create_label tk allow_resize s =
     (if pt_window s = None then s
      else
        let center_x = pt_window_size s div 2;
            center_y = pt_window_size s div 2;
            label_x = center_x + pt_label_offset_x s;
            label_y = center_y + pt_label_offset_y s;
            s1 = (if allow_resize
                  then
                    let label_width = winfo_reqwidth tk;
                        label_height = winfo_reqheight tk;
                        label_right = label_x + label_width;
                        label_bottom = label_y + label_height;
                        label_left = label_x;
                        label_top = label_y;
                        min_x = min 0 label_left;
                        min_y = min 0 label_top;
                        max_x = max (pt_window_size s) label_right;
                        max_y = max (pt_window_size s) label_bottom;
                        new_size = max (max_x - min_x) (max_y - min_y) + 20
                    in if new_size > pt_window_size s
                       then s\<lparr>pt_window_size := new_size,
                              pt_window := Some (new_size, new_size,
                                                 pt_x s - new_size div 2,
                                                 pt_y s - new_size div 2)\<rparr>
                       else s
                  else s)
        in s1\<lparr>pt_label_widget := True\<rparr>)"

text \<open>
  \<open>_update_geometry\<close> of the point: the window is centred on the point. \<open>has_canvas\<close> is
  false only inside \<open>show\<close>, where the canvas is created after the first call.
\<close>

definition pt_update_geometry :: "toolkit \<Rightarrow> bool \<Rightarrow> bool \<Rightarrow> point \<Rightarrow> point" where
  "pt_update_geometry tk has_canvas upd_label s =
     (case pt_window s of
        None \<Rightarrow> s
      | Some g \<Rightarrow>
          let window_x = pt_x s - pt_window_size s div 2;
              window_y = pt_y s - pt_window_size s div 2;
              s1 = s\<lparr>pt_window := Some (pt_window_size s, pt_window_size s, window_x, window_y)\<rparr>
          in if has_canvas
             then (if upd_label \<and> truthy (pt_label s1) \<and> pt_label_widget s1 then s1
                   else if upd_label \<and> truthy (pt_label s1) \<and> \<not> pt_label_widget s1
                   then pt_create_label tk False s1
                   else s1)
             else s1)"

definition pt_notify_callback :: "point \<Rightarrow> point" where
  "pt_notify_callback s =
     (case pt_callback s of
        None \<Rightarrow> s
      | Some cb \<Rightarrow> s\<lparr>pt_notified := pt_notified s @ [(pt_x s, pt_y s)]\<rparr>)"

definition pt_show :: "toolkit \<Rightarrow> point \<Rightarrow> point" where
  "pt_show tk s =
     (if pt_visible s then s
      else
        let s1 = pt_update_geometry tk False True (s\<lparr>pt_window := Some (0, 0, 0, 0)\<rparr>);
            s2 = (if truthy (pt_label s1) then pt_create_label tk True s1 else s1)
        in s2\<lparr>pt_visible := True\<rparr>)"

definition pt_hide :: "point \<Rightarrow> point" where
  "pt_hide s =
     (if \<not> pt_visible s \<or> pt_window s = None then s
      else s\<lparr>pt_window := None, pt_label_widget := False, pt_visible := False\<rparr>)"

definition pt_update_position :: "toolkit \<Rightarrow> int \<Rightarrow> int \<Rightarrow> bool \<Rightarrow> point \<Rightarrow> point" where
  "pt_update_position tk x y notify s =
     (let s1 = s\<lparr>pt_x := x, pt_y := y\<rparr>
      in if pt_visible s1
         then (let s2 = pt_update_geometry tk True True s1
               in if notify then pt_notify_callback s2 else s2)
         else s1)"

definition pt_on_mouse_press :: "toolkit \<Rightarrow> event \<Rightarrow> point \<Rightarrow> point" where
  "pt_on_mouse_press tk ev s =
     (if pt_draggable s
      then s\<lparr>pt_dragging := True,
             pt_start_x := x_root ev, pt_start_y := y_root ev,
             pt_offset_x := winfo_x tk, pt_offset_y := winfo_y tk\<rparr>
      else s)"

definition pt_on_mouse_drag :: "toolkit \<Rightarrow> event \<Rightarrow> point \<Rightarrow> point" where
  "pt_on_mouse_drag tk ev s =
     (if pt_dragging s \<and> pt_draggable s
      then
        let delta_x = x_root ev - pt_start_x s;
            delta_y = y_root ev - pt_start_y s;
            new_window_x = pt_offset_x s + delta_x;
            new_window_y = pt_offset_y s + delta_y;
            screen_width = winfo_screenwidth tk;
            screen_height = winfo_screenheight tk;
            new_window_x = max 0 (min new_window_x (screen_width - pt_window_size s));
            new_window_y = max 0 (min new_window_y (screen_height - pt_window_size s));
            new_x = new_window_x + pt_window_size s div 2;
            new_y = new_window_y + pt_window_size s div 2;
            new_x = max (pt_point_size s) (min new_x (screen_width - pt_point_size s));
            new_y = max (pt_point_size s) (min new_y (screen_height - pt_point_size s))
        in pt_update_geometry tk True True (s\<lparr>pt_x := new_x, pt_y := new_y\<rparr>)
      else s)"

definition pt_on_mouse_release :: "event \<Rightarrow> point \<Rightarrow> point" where
  "pt_on_mouse_release ev s =
     (if pt_dragging s then pt_notify_callback (s\<lparr>pt_dragging := False\<rparr>) else s)"

definition pt_get_position :: "point \<Rightarrow> int \<times> int" where
  "pt_get_position s = (pt_x s, pt_y s)"

section \<open>ConfigStore: the persisted document\<close>

text \<open>
  A file of the configuration directory, by what \<open>open(..., encoding="utf-8")\<close> and
  \<open>json.load\<close> do with it: \<open>Unreadable\<close> cannot be opened or read (\<open>OSError\<close>),
  \<open>Undecodable\<close> holds bytes that are not UTF-8 (\<open>UnicodeDecodeError\<close>, a \<open>ValueError\<close>),
  \<open>Malformed\<close> holds text that is not JSON (\<open>JSONDecodeError\<close>), \<open>Truncated d\<close> holds a
  strict prefix of the serialization of \<open>d\<close> (not JSON either), \<open>HugeInteger\<close> holds JSON
  text with an integer literal of more digits than \<open>max_str_digits\<close> (a plain
  \<open>ValueError\<close> from the conversion of the literal), \<open>TooDeep\<close> holds JSON text nested
  beyond the interpreter's recursion limit (\<open>RecursionError\<close>), and \<open>Document d\<close> holds
  the complete serialization of \<open>d\<close>, a text \<open>json.load\<close> reads back as \<open>d\<close>.
\<close>

datatype file_content =
    Unreadable
  | Undecodable
  | Malformed
  | Truncated json
  | HugeInteger
  | TooDeep
  | Document json

text \<open>
  The configuration directory: its files by name (\<open>None\<close>: the file does not exist), and
  whether files can be created, written and renamed in it.
\<close>

record filesystem =
  files :: "string \<rightharpoonup> file_content"
  writable :: bool

definition CONFIG_FILENAME :: string where
  "CONFIG_FILENAME = ''overlays.json''"

text \<open>\<open>self._config_path.with_suffix(".tmp")\<close>.\<close>

definition tmp_path :: string where
  "tmp_path = ''overlays.tmp''"

definition DEFAULT_RECT :: "(string \<times> json) list" where
  "DEFAULT_RECT = [(''x'', JInt 120), (''y'', JInt 120), (''width'', JInt 240), (''height'', JInt 160)]"

text \<open>\<open>DEFAULT_RECT[key]\<close>, for the four keys it has.\<close>

definition default_rect :: "string \<Rightarrow> json" where
  "default_rect key = (case map_of DEFAULT_RECT key of Some v \<Rightarrow> v | None \<Rightarrow> JNull)"

text \<open>\<open>with path.open("r", encoding="utf-8") as fh: data = json.load(fh)\<close> on an existing file.\<close>

fun json_load :: "file_content \<Rightarrow> py_error + json" where
  "json_load Unreadable = Inl OSError"
| "json_load Undecodable = Inl UnicodeDecodeError"
| "json_load Malformed = Inl JSONDecodeError"
| "json_load (Truncated d) = Inl JSONDecodeError"
| "json_load HugeInteger = Inl ValueError"
| "json_load TooDeep = Inl RecursionError"
| "json_load (Document d) = Inr d"

text \<open>What \<open>except (json.JSONDecodeError, OSError)\<close> catches.\<close>

definition caught :: "py_error \<Rightarrow> bool" where
  "caught e = (e = JSONDecodeError \<or> e = OSError)"

text \<open>\<open>src.replace(dst)\<close>: one atomic rename; \<open>dst\<close> then holds what \<open>src\<close> held.\<close>

definition replace :: "string \<Rightarrow> string \<Rightarrow> filesystem \<Rightarrow> filesystem" where
  "replace src dst fs = fs\<lparr>files := ((files fs)(dst := files fs src))(src := None)\<rparr>"

text \<open>
  \<open>_write_config_file\<close>, as the states of the directory that can be observed while it
  runs, in order: before it starts; the temporary file opened for writing, created or
  emptied, and \<open>json.dump\<close> not yet through; the temporary file complete and closed; the
  temporary file renamed onto the canonical path.
\<close>

definition write_path :: "json \<Rightarrow> filesystem \<Rightarrow> filesystem list" where
  "write_path data fs =
     (let fs1 = fs\<lparr>files := (files fs)(tmp_path \<mapsto> Truncated data)\<rparr>;
          fs2 = fs1\<lparr>files := (files fs1)(tmp_path \<mapsto> Document data)\<rparr>;
          fs3 = replace tmp_path CONFIG_FILENAME fs2
      in [fs, fs1, fs2, fs3])"

text \<open>
  \<open>_write_config_file\<close> run to its end: in a directory that cannot be written the
  \<open>open\<close> raises \<open>OSError\<close> and nothing changes.
\<close>

definition write_config_file :: "json \<Rightarrow> filesystem \<Rightarrow> py_error + filesystem" where
  "write_config_file data fs =
     (if writable fs then Inr (last (write_path data fs)) else Inl OSError)"

text \<open>
  \<open>_write_config_file\<close> interrupted after \<open>k\<close> of its steps: the state of the directory
  left behind.
\<close>

definition write_interrupted :: "nat \<Rightarrow> json \<Rightarrow> filesystem \<Rightarrow> filesystem" where
  "write_interrupted k data fs = write_path data fs ! min k 3"

definition load_legacy_file :: "string \<Rightarrow> filesystem \<Rightarrow> py_error + json" where
  "load_legacy_file filename fs =
     (case files fs filename of
        None \<Rightarrow> Inr (JObj [])
      | Some f \<Rightarrow>
          (case json_load f of
             Inr data \<Rightarrow> Inr (if is_dict data then data else JObj [])
           | Inl e \<Rightarrow> if caught e then Inr (JObj []) else Inl e))"

text \<open>
  \<open>_migrate_legacy_configs\<close>: \<open>None\<close> when both legacy dictionaries are empty, else the
  merged document, written to the canonical path.
\<close>

definition migrate_legacy_configs :: "filesystem \<Rightarrow> py_error + (json option \<times> filesystem)" where
  "migrate_legacy_configs fs =
     (case load_legacy_file ''rects.json'' fs of
        Inl e \<Rightarrow> Inl e
      | Inr rects \<Rightarrow>
          (case load_legacy_file ''points.json'' fs of
             Inl e \<Rightarrow> Inl e
           | Inr points \<Rightarrow>
               if \<not> truthy rects \<and> \<not> truthy points then Inr (None, fs)
               else
                 let data = JObj [(''rects'', rects), (''points'', points)]
                 in (case write_config_file data fs of
                       Inl e \<Rightarrow> Inl e
                     | Inr fs' \<Rightarrow> Inr (Some data, fs'))))"

text \<open>One namespace of the loaded document: the value under \<open>key\<close> if it is a \<open>dict\<close>, else \<open>{}\<close>.\<close>

definition namespace :: "(string \<times> json) list \<Rightarrow> string \<Rightarrow> json" where
  "namespace kvs key =
     (case map_of kvs key of
        None \<Rightarrow> JObj []
      | Some v \<Rightarrow> if is_dict v then v else JObj [])"

definition load_all_configs :: "filesystem \<Rightarrow> py_error + (json \<times> filesystem)" where
  "load_all_configs fs =
     (case files fs CONFIG_FILENAME of
        Some f \<Rightarrow>
          (case (case json_load f of
                   Inr d \<Rightarrow> Inr d
                 | Inl e \<Rightarrow> if caught e then Inr (JObj []) else Inl e) of
             Inl e \<Rightarrow> Inl e
           | Inr data \<Rightarrow>
               let kvs = (case data of JObj kvs \<Rightarrow> kvs | _ \<Rightarrow> [])
               in Inr (JObj [(''rects'', namespace kvs ''rects''),
                             (''points'', namespace kvs ''points'')], fs))
      | None \<Rightarrow>
          (case migrate_legacy_configs fs of
             Inl e \<Rightarrow> Inl e
           | Inr (Some legacy, fs') \<Rightarrow> Inr (legacy, fs')
           | Inr (None, fs') \<Rightarrow> Inr (JObj [(''rects'', JObj []), (''points'', JObj [])], fs')))"

section \<open>Desktop_overlay_manager: the state owned by the UI thread\<close>

text \<open>
  \<open>rects\<close> and \<open>points\<close> are the live markers by id (\<open>self._rects\<close>, \<open>self._points\<close>);
  \<open>rect_configs\<close> and \<open>point_configs\<close> are the two namespaces of the persisted document
  (\<open>self._rect_configs\<close>, \<open>self._point_configs\<close>), each a \<open>dict\<close> from id to record;
  \<open>disk\<close> is the configuration directory.
\<close>

record manager =
  rects :: "string \<rightharpoonup> overlay"
  points :: "string \<rightharpoonup> point"
  rect_configs :: "(string \<times> json) list"
  point_configs :: "(string \<times> json) list"
  disk :: filesystem

text \<open>\<open>d[key] = v\<close> on a \<open>dict\<close>: an existing key keeps its place, a new one goes last.\<close>

fun dict_set :: "(string \<times> 'v) list \<Rightarrow> string \<Rightarrow> 'v \<Rightarrow> (string \<times> 'v) list" where
  "dict_set [] key v = [(key, v)]"
| "dict_set ((k, w) # kvs) key v =
     (if k = key then (k, v) # kvs else (k, w) # dict_set kvs key v)"

text \<open>
  \<open>_save_all_configs\<close>: writes both namespaces as one document. The caller,
  \<open>_notify_callback\<close>, prints what the write raises, so the directory is left as it was.
\<close>

definition save_all_configs :: "manager \<Rightarrow> manager" where
  "save_all_configs m =
     (let config = JObj [(''rects'', JObj (rect_configs m)), (''points'', JObj (point_configs m))]
      in case write_config_file config (disk m) of
           Inl e \<Rightarrow> m
         | Inr fs \<Rightarrow> m\<lparr>disk := fs\<rparr>)"

text \<open>The closure \<open>_callback\<close> of \<open>registerRect\<close>, for the id and label it captured.\<close>

definition rect_callback :: "string \<times> json \<Rightarrow> int \<times> int \<times> int \<times> int \<Rightarrow> manager \<Rightarrow> manager" where
  "rect_callback cb g m =
     (case (cb, g) of
        ((rect_id, rect_label), (nx, ny, w, h)) \<Rightarrow>
          save_all_configs
            (m\<lparr>rect_configs :=
                 dict_set (rect_configs m) rect_id
                   (JObj [(''x'', JInt nx), (''y'', JInt ny), (''width'', JInt w),
                          (''height'', JInt h), (''label'', rect_label)])\<rparr>))"

text \<open>Sequencing of steps that may raise: the first exception ends the sequence.\<close>

definition bind :: "py_error + 'a \<Rightarrow> ('a \<Rightarrow> py_error + 'b) \<Rightarrow> py_error + 'b" where
  "bind r f = (case r of Inl e \<Rightarrow> Inl e | Inr v \<Rightarrow> f v)"

text \<open>
  A geometry value on its way into a marker: the explicit arguments are \<open>int\<close>s, and a
  persisted value is expected to be one.
\<close>

fun as_int :: "json \<Rightarrow> py_error + int" where
  "as_int (JInt i) = Inr i"
| "as_int v = Inl NotAnInt"

text \<open>
  \<open>x if x is not None else config.get("x", DEFAULT_RECT["x"])\<close>: the persisted record
  is only consulted when the argument is missing.
\<close>

definition merged :: "int option \<Rightarrow> json \<Rightarrow> string \<Rightarrow> json \<Rightarrow> py_error + json" where
  "merged arg config key dflt =
     (case arg of Some v \<Rightarrow> Inr (JInt v) | None \<Rightarrow> dict_get config key dflt)"

text \<open>
  \<open>registerRect\<close>, that is the closure \<open>_create\<close> it runs on the UI thread: the merged
  geometry and label, then a new marker, created and shown, or the live one updated
  without notification and shown.
\<close>

definition registerRect ::
  "string \<Rightarrow> string \<Rightarrow> int option \<Rightarrow> int option \<Rightarrow> int option \<Rightarrow> int option \<Rightarrow> style
     \<Rightarrow> manager \<Rightarrow> py_error + manager" where
  "registerRect rect_id label x y width height st m =
     (let config = (case map_of (rect_configs m) rect_id of None \<Rightarrow> JObj [] | Some c \<Rightarrow> c)
      in bind (merged x config ''x'' (default_rect ''x'')) (\<lambda>jx.
         bind (merged y config ''y'' (default_rect ''y'')) (\<lambda>jy.
         bind (merged width config ''width'' (default_rect ''width'')) (\<lambda>jw.
         bind (merged height config ''height'' (default_rect ''height'')) (\<lambda>jh.
         bind (if label \<noteq> [] then Inr (JStr label)
               else dict_get config ''label'' (JStr rect_id)) (\<lambda>rect_label.
         bind (as_int jx) (\<lambda>vx.
         bind (as_int jy) (\<lambda>vy.
         bind (as_int jw) (\<lambda>vw.
         bind (as_int jh) (\<lambda>vh.
           (case rects m rect_id of
              None \<Rightarrow>
                Inr (m\<lparr>rects := (rects m)(rect_id \<mapsto>
                       create_overlay vx vy vw vh rect_label (Some (rect_id, rect_label)) st)\<rparr>)
            | Some overlay \<Rightarrow>
                Inr (m\<lparr>rects := (rects m)(rect_id \<mapsto>
                       show (update_label rect_label
                              (update_size vw vh False
                                 (update_position vx vy False overlay))))\<rparr>))))))))))))"

text \<open>
  \<open>{k: int(v) for k, v in saved.items() if k in keys}\<close>: in the order of the record,
  stopping at the first value \<open>int\<close> refuses.
\<close>

fun int_items :: "string list \<Rightarrow> (string \<times> json) list \<Rightarrow> py_error + (string \<times> int) list" where
  "int_items keys [] = Inr []"
| "int_items keys ((k, v) # kvs) =
     (if k \<in> set keys
      then bind (py_int v) (\<lambda>i. bind (int_items keys kvs) (\<lambda>rest. Inr ((k, i) # rest)))
      else int_items keys kvs)"

text \<open>
  \<open>saved = configs[id].copy()\<close> followed by the comprehension: a record that is not a
  \<open>dict\<close> has no \<open>items\<close>.
\<close>

fun saved_items :: "string list \<Rightarrow> json \<Rightarrow> py_error + (string \<times> int) list" where
  "saved_items keys (JObj kvs) = int_items keys kvs"
| "saved_items keys v = Inl AttributeError"

text \<open>\<open>getRect\<close>, that is its closure \<open>_read\<close>: the live marker first, then the record.\<close>

definition getRect :: "string \<Rightarrow> manager \<Rightarrow> py_error + (string \<times> int) list option" where
  "getRect rect_id m =
     (case rects m rect_id of
        Some overlay \<Rightarrow>
          (case get_position overlay of
             (x, y, width, height) \<Rightarrow>
               Inr (Some [(''x'', x), (''y'', y), (''width'', width), (''height'', height)]))
      | None \<Rightarrow>
          (case map_of (rect_configs m) rect_id of
             Some saved \<Rightarrow>
               bind (saved_items [''x'', ''y'', ''width'', ''height''] saved) (\<lambda>r. Inr (Some r))
           | None \<Rightarrow> Inr None))"


section \<open>Dispatcher: the command queue and the UI thread's loop\<close>

text \<open>
  What running a queued closure gives: a value, or an exception (of class \<open>Exception\<close>,
  as everything in \<open>py_error\<close> is), which is what \<open>except Exception\<close> catches.
\<close>

datatype 'v outcome = Returned 'v | Raised py_error

text \<open>
  A queued command: the \<open>Future\<close>, given by a number, and the closure, a function of the
  state the UI thread owns, which it may change whether it returns or raises.
\<close>

type_synonym ('s, 'v) command = "nat \<times> ('s \<Rightarrow> 'v outcome \<times> 's)"

text \<open>
  \<open>tk_queue\<close> is \<open>self._tk_queue\<close>, oldest command first; \<open>futures\<close> holds the result slot
  of each completed \<open>Future\<close> (no entry: still pending, its caller blocked in
  \<open>future.result()\<close>); \<open>stop_event\<close> is \<open>self._stop_event\<close>; \<open>exited\<close> says that the worker
  has left \<open>_run_tk_loop\<close>; \<open>app\<close> is the state the closures act on.
\<close>

record ('s, 'v) dispatcher =
  tk_queue :: "('s, 'v) command list"
  futures :: "nat \<rightharpoonup> 'v outcome"
  stop_event :: bool
  exited :: bool
  app :: 's

definition stopped :: py_error where
  "stopped = RuntimeError ''Tk loop already stopped''"

text \<open>\<open>self._tk_queue.put((future, func, args, kwargs))\<close>, the caller's half of \<open>_call_in_tk_thread\<close>.\<close>

definition put :: "('s, 'v) command \<Rightarrow> ('s, 'v) dispatcher \<Rightarrow> ('s, 'v) dispatcher" where
  "put c d = d\<lparr>tk_queue := tk_queue d @ [c]\<rparr>"

text \<open>
  \<open>future.result()\<close>, the other half: \<open>None\<close> while the caller is still blocked, then the
  value returned to the caller or the exception raised in it.
\<close>

definition future_result :: "('s, 'v) dispatcher \<Rightarrow> nat \<Rightarrow> (py_error + 'v) option" where
  "future_result d future =
     (case futures d future of
        None \<Rightarrow> None
      | Some (Returned v) \<Rightarrow> Some (Inr v)
      | Some (Raised e) \<Rightarrow> Some (Inl e))"

text \<open>\<open>_drain_queue\<close>: takes commands until the queue is empty.\<close>

function drain_queue :: "bool \<Rightarrow> ('s, 'v) dispatcher \<Rightarrow> ('s, 'v) dispatcher" where
  "drain_queue set_exception d =
     (case tk_queue d of
        [] \<Rightarrow> d
      | (future, func) # rest \<Rightarrow>
          if set_exception
          then drain_queue set_exception
                 (d\<lparr>tk_queue := rest, futures := (futures d)(future \<mapsto> Raised stopped)\<rparr>)
          else (case func (app d) of
                  (result, a) \<Rightarrow>
                    drain_queue set_exception
                      (d\<lparr>tk_queue := rest, futures := (futures d)(future \<mapsto> result),
                         app := a\<rparr>)))"
  by pat_completeness auto
termination
  by (relation "measure (\<lambda>(set_exception, d). length (tk_queue d))") auto

text \<open>
  What the other threads and the toolkit do during one pass of the worker's loop:
  \<open>arrivals\<close> are the commands put on the queue before the pass finds it empty,
  \<open>ui_update\<close> is \<open>root.update_idletasks(); root.update()\<close>, which runs the pending event
  handlers on the state or raises \<open>TclError\<close> (\<open>None\<close>), and \<open>stop_requested\<close> says that
  a caller sets the stop event before the next test of the loop condition.
\<close>

record ('s, 'v) tick =
  arrivals :: "('s, 'v) command list"
  ui_update :: "'s \<Rightarrow> 's option"
  stop_requested :: bool

text \<open>
  After the loop: \<open>_drain_queue(set_exception=True)\<close>, then the root window is destroyed
  (a \<open>TclError\<close> there is suppressed) and the thread ends.
\<close>

definition leave_loop :: "('s, 'v) dispatcher \<Rightarrow> ('s, 'v) dispatcher" where
  "leave_loop d = (drain_queue True d)\<lparr>exited := True\<rparr>"

text \<open>
  \<open>_run_tk_loop\<close>, the life of one worker thread, over the passes the schedule
  describes. The loop has no bound of its own: when the schedule ends with the stop
  event unset the worker is still in the loop (\<open>exited\<close> is false). Once the worker has
  left the loop the function has returned and this thread makes no further pass; a
  worker started afterwards is another run of the function (\<open>ensure_tk_thread\<close> below).
\<close>

fun run_tk_loop :: "('s, 'v) tick list \<Rightarrow> ('s, 'v) dispatcher \<Rightarrow> ('s, 'v) dispatcher" where
  "run_tk_loop [] d = d"
| "run_tk_loop (t # ts) d =
     (if exited d then d
      else if stop_event d then leave_loop (d\<lparr>tk_queue := tk_queue d @ arrivals t\<rparr>)
      else
        let d1 = drain_queue False (d\<lparr>tk_queue := tk_queue d @ arrivals t\<rparr>)
        in (case ui_update t (app d1) of
              None \<Rightarrow> leave_loop d1
            | Some a \<Rightarrow>
                run_tk_loop ts
                  (d1\<lparr>app := a, stop_event := stop_event d1 \<or> stop_requested t\<rparr>)))"

text \<open>
  \<open>_ensure_tk_thread\<close>, which \<open>_call_in_tk_thread\<close> calls before it puts its command:
  nothing while the worker is alive; otherwise a new worker is started, which enters
  \<open>_run_tk_loop\<close> from its beginning. Nothing clears the stop event, so a worker started
  after \<open>destroy()\<close> fails its first test of the loop condition and only completes what
  is on the queue at that moment with the stopped failure.
\<close>

definition ensure_tk_thread :: "('s, 'v) dispatcher \<Rightarrow> ('s, 'v) dispatcher" where
  "ensure_tk_thread d = (if exited d then d\<lparr>exited := False\<rparr> else d)"

text \<open>What the manager's closures return to their callers.\<close>

datatype py_value = PyNone | PyDict "(string \<times> int) list"

text \<open>The closure \<open>_read\<close> of \<open>getRect\<close> as a queued command.\<close>

definition getRect_closure :: "string \<Rightarrow> manager \<Rightarrow> py_value outcome \<times> manager" where
  "getRect_closure rect_id m =
     (case getRect rect_id m of
        Inl e \<Rightarrow> (Raised e, m)
      | Inr None \<Rightarrow> (Returned PyNone, m)
      | Inr (Some r) \<Rightarrow> (Returned (PyDict r), m))"

text \<open>
  The closure \<open>_destroy\<close> of \<open>destroy\<close>: every marker is destroyed and both tables are
  cleared.
\<close>

definition destroy_closure :: "manager \<Rightarrow> py_value outcome \<times> manager" where
  "destroy_closure m = (Returned PyNone, m\<lparr>rects := Map.empty, points := Map.empty\<rparr>)"

text \<open>
  \<open>destroy()\<close> called with \<open>Future\<close> number \<open>future\<close>, and the worker's part in it: the
  closure is queued behind what is pending and the caller blocks; the worker's pass
  drains the queue; the caller, released, sets the stop event and joins; the next test
  of the loop condition ends the loop.
\<close>

definition destroy :: "nat \<Rightarrow> (manager, py_value) dispatcher \<Rightarrow> (manager, py_value) dispatcher" where
  "destroy future d =
     run_tk_loop
       [\<lparr>arrivals = [(future, destroy_closure)], ui_update = Some, stop_requested = True\<rparr>,
        \<lparr>arrivals = [], ui_update = Some, stop_requested = False\<rparr>] d"

section \<open>Concrete inputs\<close>

text \<open>A 1920 by 1080 screen; the marker's window is reported at (10, 20).\<close>

definition tk0 :: toolkit where
  "tk0 = \<lparr>winfo_screenwidth = 1920, winfo_screenheight = 1080, winfo_x = 10, winfo_y = 20,
          winfo_reqwidth = 40, winfo_reqheight = 20\<rparr>"

definition ev_at :: "int \<Rightarrow> int \<Rightarrow> int \<Rightarrow> int \<Rightarrow> event" where
  "ev_at x y xr yr = \<lparr>ev_x = x, ev_y = y, x_root = xr, y_root = yr\<rparr>"

text \<open>
  A rectangle created at (10, 20), 200 by 100, pressed inside its body and moved by
  (40, 40): it is in the middle of a drag.
\<close>

definition dragged :: overlay where
  "dragged =
     deliver tk0 False Motion (ev_at 45 45 55 65)
       (deliver tk0 False Press (ev_at 5 5 15 25)
          (create_overlay 10 20 200 100 (JStr ''price'') (Some (''r'', JStr ''price''))
             default_style))"

text \<open>
  A rectangle created at (1900, 10), 100 by 100, twenty pixels from the right edge of the
  screen, pressed on its resize handle (\<open>resize_pressed\<close>) and then moved by nothing.
\<close>

definition tk_edge :: toolkit where
  "tk_edge = \<lparr>winfo_screenwidth = 1920, winfo_screenheight = 1080, winfo_x = 1900, winfo_y = 10,
              winfo_reqwidth = 40, winfo_reqheight = 20\<rparr>"

definition resize_pressed :: overlay where
  "resize_pressed =
     deliver tk_edge True Press (ev_at 95 95 1995 105)
       (create_overlay 1900 10 100 100 (JStr ''edge'') (Some (''e'', JStr ''edge''))
          default_style)"

definition resized_at_edge :: overlay where
  "resized_at_edge = deliver tk_edge True Motion (ev_at 95 95 1995 105) resize_pressed"

text \<open>A rectangle 3000 wide on the 1920 wide screen, pressed and moved by nothing.\<close>

definition tk_origin :: toolkit where
  "tk_origin = \<lparr>winfo_screenwidth = 1920, winfo_screenheight = 1080, winfo_x = 0, winfo_y = 0,
                winfo_reqwidth = 40, winfo_reqheight = 20\<rparr>"

definition dragged_wide :: overlay where
  "dragged_wide =
     deliver tk_origin False Motion (ev_at 5 5 5 5)
       (deliver tk_origin False Press (ev_at 5 5 5 5)
          (create_overlay 0 0 3000 100 (JStr ''wide'') (Some (''w'', JStr ''wide''))
             default_style))"

text \<open>
  A rectangle in the middle of the screen pressed on its resize handle, and a point
  marker with the default style, shown at (160, 160) and pressed.
\<close>

definition resize_started :: overlay where
  "resize_started =
     deliver tk0 True Press (ev_at 195 95 205 115)
       (create_overlay 10 20 200 100 (JStr ''price'') (Some (''r'', JStr ''price''))
          default_style)"

definition point_pressed :: point where
  "point_pressed =
     pt_on_mouse_press tk0 (ev_at 75 75 160 160)
       (pt_show tk0 (DraggablePoint 160 160 (JStr ''p'') True (Some (''p'', JStr ''p'')) 8 10 (-25)))"

text \<open>
  A manager whose persisted rectangles are \<open>bad\<close>, a record that is a number and not a
  \<open>dict\<close>, and \<open>ok\<close>, a record with \<open>x\<close> and a label; no marker is live.
\<close>

definition m_ex :: manager where
  "m_ex = \<lparr>rects = Map.empty, points = Map.empty,
           rect_configs = [(''bad'', JInt 5), (''ok'', JObj [(''x'', JInt 1), (''label'', JStr ''l'')])],
           point_configs = [], disk = \<lparr>files = Map.empty, writable = True\<rparr>\<rparr>"

text \<open>
  A running dispatcher with nothing queued; the same with two \<open>getRect\<close> calls put on
  its queue, the first of which raises; a pass of the loop in which nothing arrives and
  the toolkit has nothing to do; a pass in which one more call arrives; the running
  dispatcher with one call put on its queue
  and pending; and the same with the stop event set.
\<close>

definition d_running :: "(manager, py_value) dispatcher" where
  "d_running = \<lparr>tk_queue = [], futures = Map.empty, stop_event = False, exited = False,
                app = m_ex\<rparr>"


definition idle_tick :: "(manager, py_value) tick" where
  "idle_tick = \<lparr>arrivals = [], ui_update = Some, stop_requested = False\<rparr>"


definition d_pending :: "(manager, py_value) dispatcher" where
  "d_pending = put (7, getRect_closure ''ok'') d_running"

definition d_stopping :: "(manager, py_value) dispatcher" where
  "d_stopping = (put (7, getRect_closure ''ok'') d_running)\<lparr>stop_event := True\<rparr>"

text \<open>
  Configuration directories: one whose unified file holds bytes that are not UTF-8; one
  with no unified file and a legacy \<open>rects.json\<close> holding the empty object; one with no
  unified file and both legacy files holding one record each, with the document their
  migration gives and the directory after it.
\<close>

definition fs_undecodable :: filesystem where
  "fs_undecodable = \<lparr>files = [CONFIG_FILENAME \<mapsto> Undecodable], writable = True\<rparr>"

definition fs_empty_legacy :: filesystem where
  "fs_empty_legacy = \<lparr>files = [''rects.json'' \<mapsto> Document (JObj [])], writable = True\<rparr>"

definition fs_legacy :: filesystem where
  "fs_legacy =
     \<lparr>files = [''rects.json'' \<mapsto> Document (JObj [(''a'', JObj [(''x'', JInt 1)])]),
               ''points.json'' \<mapsto> Document (JObj [(''p'', JObj [(''y'', JInt 2)])])],
      writable = True\<rparr>"

definition migrated :: json where
  "migrated = JObj [(''rects'', JObj [(''a'', JObj [(''x'', JInt 1)])]),
                    (''points'', JObj [(''p'', JObj [(''y'', JInt 2)])])]"

definition fs_migrated :: filesystem where
  "fs_migrated = fs_legacy\<lparr>files := ((files fs_legacy)(tmp_path := None))(CONFIG_FILENAME \<mapsto> Document migrated)\<rparr>"

text \<open>
  Managers with no live marker: one whose persisted rectangle \<open>existing\<close> is 30 by 30
  with the label \<open>old\<close>; one with nothing persisted; one whose persisted rectangle \<open>r\<close>
  has an \<open>x\<close>, a fractional width and a label, and whose persisted point \<open>p\<close> has a label
  and a \<open>y\<close> stored as a string.
\<close>

definition m_small :: manager where
  "m_small = \<lparr>rects = Map.empty, points = Map.empty,
     rect_configs = [(''existing'', JObj [(''x'', JInt 5), (''y'', JInt 5), (''width'', JInt 30),
                                           (''height'', JInt 30), (''label'', JStr ''old'')])],
     point_configs = [], disk = \<lparr>files = Map.empty, writable = True\<rparr>\<rparr>"

definition m_fresh :: manager where
  "m_fresh = \<lparr>rects = Map.empty, points = Map.empty, rect_configs = [], point_configs = [],
               disk = \<lparr>files = Map.empty, writable = True\<rparr>\<rparr>"




section \<open>Rectangle markers: what the handlers preserve\<close>

lemma notified_update_geometry: "ov_notified (update_geometry s) = ov_notified s"
  by (simp add: update_geometry_def split: option.splits)

lemma notified_create_label: "ov_notified (create_label s) = ov_notified s"
  by (simp add: create_label_def)

lemma notified_on_resize_drag: "ov_notified (on_resize_drag tk ev s) = ov_notified s"
  by (simp add: on_resize_drag_def Let_def notified_update_geometry notified_create_label)

lemma notified_on_mouse_drag_global:
  "ov_notified (on_mouse_drag_global tk ev s) = ov_notified s"
  by (simp add: on_mouse_drag_global_def Let_def notified_update_geometry
        notified_on_resize_drag)

lemma notified_on_mouse_press: "ov_notified (on_mouse_press tk ev s) = ov_notified s"
  by (simp add: on_mouse_press_def)

lemma notified_on_resize_press: "ov_notified (on_resize_press tk ev s) = ov_notified s"
  by (simp add: on_resize_press_def)

lemma deliver_Motion:
  "deliver tk h Motion ev s =
     (if ov_window s = None then s
      else on_mouse_drag_global tk ev
             (if h \<and> ov_resize_handle s then on_resize_drag tk ev s else s))"
  by (simp add: deliver_def)

lemma deliver_Press:
  "deliver tk h Press ev s =
     (if ov_window s = None then s
      else on_mouse_press tk ev
             (if h \<and> ov_resize_handle s then on_resize_press tk ev s else s))"
  by (simp add: deliver_def)

lemma deliver_Release:
  "deliver tk h Release ev s =
     (if ov_window s = None then s
      else on_mouse_release_global ev
             (if h \<and> ov_resize_handle s then on_mouse_release_global ev s else s))"
  by (simp add: deliver_def on_resize_release_def)

lemma deliver_motion_silent: "ov_notified (deliver tk h Motion ev s) = ov_notified s"
  by (simp add: deliver_Motion notified_on_mouse_drag_global notified_on_resize_drag)

lemma deliver_press_silent: "ov_notified (deliver tk h Press ev s) = ov_notified s"
  by (simp add: deliver_Press notified_on_mouse_press notified_on_resize_press)

lemma idle_after_release:
  "\<not> ov_dragging (on_mouse_release_global ev s) \<and>
   \<not> ov_resizing (on_mouse_release_global ev s)"
  by (cases "ov_resizing s"; cases "ov_dragging s")
     (simp_all add: on_mouse_release_global_def notify_callback_def create_resize_handle_def
        Let_def split: option.splits)

lemma release_idle:
  "\<not> ov_dragging s \<Longrightarrow> \<not> ov_resizing s \<Longrightarrow> on_mouse_release_global ev s = s"
  by (simp add: on_mouse_release_global_def)

text \<open>
  The release handler run a second time for the same event, as happens when the handle
  item's binding and the canvas's binding both fire, does nothing more.
\<close>

lemma release_twice:
  "on_mouse_release_global ev (on_mouse_release_global ev s) = on_mouse_release_global ev s"
  using idle_after_release [of ev s] by (simp add: release_idle)

lemma geometry_release: "get_position (on_mouse_release_global ev s) = get_position s"
  by (cases "ov_resizing s"; cases "ov_dragging s")
     (simp_all add: on_mouse_release_global_def notify_callback_def create_resize_handle_def
        get_position_def Let_def split: option.splits)

lemma deliver_Release_once:
  "ov_window s \<noteq> None \<Longrightarrow> deliver tk h Release ev s = on_mouse_release_global ev s"
  by (auto simp add: deliver_Release release_twice)

lemma dragged_state:
  "ov_window dragged = Some (200, 100, 50, 60) \<and> ov_dragging dragged \<and> \<not> ov_resizing dragged
   \<and> ov_draggable dragged \<and> ov_callback dragged = Some (''r'', JStr ''price'')
   \<and> get_position dragged = (50, 60, 200, 100) \<and> ov_notified dragged = []"
  by (simp add: dragged_def tk0_def ev_at_def deliver_def create_overlay_def show_def
        DraggableOverlay_def default_style_def create_label_def create_resize_handle_def
        on_mouse_press_def is_in_resize_handle_def on_mouse_drag_global_def
        update_geometry_def get_position_def Let_def)

section \<open>C8: the update callback fires on release only, and once\<close>

lemma notified_release:
  "ov_notified (on_mouse_release_global ev s) =
     ov_notified s @ (if (ov_dragging s \<or> ov_resizing s) \<and> ov_callback s \<noteq> None
                      then [get_position s] else [])"
  by (cases "ov_resizing s"; cases "ov_dragging s"; cases "ov_callback s")
     (simp_all add: on_mouse_release_global_def notify_callback_def create_resize_handle_def
        get_position_def Let_def)

lemma notified_deliver:
  "ov_notified (deliver tk h p ev s) =
     ov_notified s @ (if p = Release \<and> ov_window s \<noteq> None \<and> (ov_dragging s \<or> ov_resizing s)
                         \<and> ov_callback s \<noteq> None
                      then [get_position s] else [])"
proof (cases p)
  case Press
  then show ?thesis by (simp add: deliver_press_silent)
next
  case Motion
  then show ?thesis by (simp add: deliver_motion_silent)
next
  case Release
  show ?thesis
  proof (cases "ov_window s = None")
    case True
    then show ?thesis using Release by (simp add: deliver_Release)
  next
    case False
    then show ?thesis using Release by (simp add: deliver_Release_once notified_release)
  qed
qed

lemma notified_deliver_all:
  "ov_notified (deliver_all es s) = ov_notified s @ release_calls es s"
proof (induction es arbitrary: s)
  case Nil
  then show ?case by simp
next
  case (Cons e es)
  obtain tk h p ev where e: "e = (tk, h, p, ev)" by (cases e)
  show ?case
    using Cons.IH [of "deliver tk h p ev s"] notified_deliver [of tk h p ev s]
    by (simp add: e)
qed

lemma geometry_deliver_release: "get_position (deliver tk h Release ev s) = get_position s"
  by (simp add: deliver_Release geometry_release)

text \<open>
  Claim C8. For every sequence of pointer events on a rectangle marker, from any state,
  the calls of the update callback are exactly those of \<open>release_calls\<close>: one for each
  release that ends a drag or a resize, none at any other event. In particular a
  pointer press and a pointer move never call it, whatever the mode. The release leaves
  the geometry as it is, so the call carries the final geometry; and on a shown marker
  with a callback, dragging or resizing, the release adds exactly that one call and
  leaves the marker neither dragging nor resizing. All of this holds whether or not the
  event also reaches the resize handle's own bindings (\<open>h\<close>).
\<close>

theorem callback_only_on_release:
  "ov_notified (deliver_all es s) = ov_notified s @ release_calls es s
   \<and> ov_notified (deliver tk h Press ev s) = ov_notified s
   \<and> ov_notified (deliver tk h Motion ev s) = ov_notified s
   \<and> get_position (deliver tk h Release ev s) = get_position s
   \<and> (ov_window s \<noteq> None \<and> ov_callback s \<noteq> None \<and> (ov_dragging s \<or> ov_resizing s) \<longrightarrow>
        ov_notified (deliver tk h Release ev s) = ov_notified s @ [get_position s]
        \<and> \<not> ov_dragging (deliver tk h Release ev s)
        \<and> \<not> ov_resizing (deliver tk h Release ev s))"
proof -
  have idle: "ov_window s \<noteq> None \<Longrightarrow>
                \<not> ov_dragging (deliver tk h Release ev s) \<and> \<not> ov_resizing (deliver tk h Release ev s)"
    using idle_after_release [of ev s] by (simp add: deliver_Release_once)
  have once: "ov_window s \<noteq> None \<and> ov_callback s \<noteq> None \<and> (ov_dragging s \<or> ov_resizing s) \<Longrightarrow>
                ov_notified (deliver tk h Release ev s) = ov_notified s @ [get_position s]"
    using notified_deliver [of tk h Release ev s] by simp
  from notified_deliver_all [of es s] deliver_press_silent [of tk h ev s]
       deliver_motion_silent [of tk h ev s] geometry_deliver_release [of tk h ev s] idle once
  show ?thesis by blast
qed

theorem callback_only_on_release_witness:
  "ov_notified (deliver tk0 False Motion (ev_at 50 50 60 70) dragged) = []
   \<and> ov_notified (deliver tk0 False Release (ev_at 45 45 55 65) dragged) = [(50, 60, 200, 100)]
   \<and> ov_notified
        (deliver_all [(tk0, False, Motion, ev_at 50 50 60 70),
                      (tk0, False, Release, ev_at 50 50 60 70),
                      (tk0, False, Release, ev_at 50 50 60 70)] dragged)
       = [(55, 65, 200, 100)]"
proof -
  have shown: "ov_window dragged \<noteq> None \<and> ov_callback dragged \<noteq> None
               \<and> (ov_dragging dragged \<or> ov_resizing dragged)"
    using dragged_state by simp
  have calls: "release_calls [(tk0, False, Motion, ev_at 50 50 60 70),
                              (tk0, False, Release, ev_at 50 50 60 70),
                              (tk0, False, Release, ev_at 50 50 60 70)] dragged
                 = [(55, 65, 200, 100)]"
    by (simp add: dragged_def tk0_def ev_at_def deliver_def create_overlay_def show_def
          DraggableOverlay_def default_style_def create_label_def create_resize_handle_def
          on_mouse_press_def is_in_resize_handle_def on_mouse_drag_global_def
          on_mouse_release_global_def notify_callback_def
          update_geometry_def get_position_def Let_def)
  show ?thesis
    using callback_only_on_release [of "[]" dragged tk0 False "ev_at 50 50 60 70"]
          callback_only_on_release [of "[(tk0, False, Motion, ev_at 50 50 60 70),
                      (tk0, False, Release, ev_at 50 50 60 70),
                      (tk0, False, Release, ev_at 50 50 60 70)]" dragged tk0 False "ev_at 45 45 55 65"]
          shown dragged_state calls
    by simp
qed

section \<open>C2: screen bounds of a drag, and the floor of a resize\<close>

lemma geometry_update_geometry:
  "ov_x (update_geometry s) = ov_x s" "ov_y (update_geometry s) = ov_y s"
  "ov_width (update_geometry s) = ov_width s" "ov_height (update_geometry s) = ov_height s"
  by (simp_all add: update_geometry_def split: option.splits)

lemma size_create_label:
  "ov_width (create_label s) = ov_width s" "ov_height (create_label s) = ov_height s"
  by (simp_all add: create_label_def)

lemma drag_position:
  assumes "ov_dragging s" "ov_draggable s" "\<not> ov_resizing s"
  shows "ov_x (on_mouse_drag_global tk ev s) =
           max 0 (min (ov_offset_x s + (x_root ev - ov_start_x s))
                      (winfo_screenwidth tk - ov_width s))"
    and "ov_y (on_mouse_drag_global tk ev s) =
           max 0 (min (ov_offset_y s + (y_root ev - ov_start_y s))
                      (winfo_screenheight tk - ov_height s))"
    and "ov_width (on_mouse_drag_global tk ev s) = ov_width s"
    and "ov_height (on_mouse_drag_global tk ev s) = ov_height s"
  using assms by (simp_all add: on_mouse_drag_global_def Let_def geometry_update_geometry)

lemma resize_size:
  assumes "ov_resizing s" "ov_resizable s"
  shows "ov_width (on_resize_drag tk ev s) =
           min (max 50 (ov_start_width s + (x_root ev - ov_start_x s)))
               (winfo_screenwidth tk - ov_offset_x s)"
    and "ov_height (on_resize_drag tk ev s) =
           min (max 50 (ov_start_height s + (y_root ev - ov_start_y s)))
               (winfo_screenheight tk - ov_offset_y s)"
  using assms
  by (simp_all add: on_resize_drag_def Let_def geometry_update_geometry size_create_label)

lemma position_pt_update_geometry:
  "pt_x (pt_update_geometry tk c u s) = pt_x s" "pt_y (pt_update_geometry tk c u s) = pt_y s"
  by (simp_all add: pt_update_geometry_def pt_create_label_def Let_def split: option.splits)

lemma point_position:
  assumes "pt_dragging p" "pt_draggable p"
  shows "pt_x (pt_on_mouse_drag tk ev p) =
           max (pt_point_size p)
             (min (max 0 (min (pt_offset_x p + (x_root ev - pt_start_x p))
                              (winfo_screenwidth tk - pt_window_size p))
                    + pt_window_size p div 2)
                  (winfo_screenwidth tk - pt_point_size p))"
    and "pt_y (pt_on_mouse_drag tk ev p) =
           max (pt_point_size p)
             (min (max 0 (min (pt_offset_y p + (y_root ev - pt_start_y p))
                              (winfo_screenheight tk - pt_window_size p))
                    + pt_window_size p div 2)
                  (winfo_screenheight tk - pt_point_size p))"
  using assms by (simp_all add: pt_on_mouse_drag_def Let_def position_pt_update_geometry)

lemma position_pt_release: "pt_get_position (pt_on_mouse_release ev p) = pt_get_position p"
  by (simp add: pt_on_mouse_release_def pt_notify_callback_def pt_get_position_def
        split: option.splits)

lemma resize_pressed_state:
  "ov_resizing resize_pressed \<and> ov_resizable resize_pressed
   \<and> ov_width resize_pressed = 100 \<and> ov_offset_x resize_pressed = 1900
   \<and> ov_window resize_pressed \<noteq> None"
  by (simp add: resize_pressed_def tk_edge_def ev_at_def deliver_def create_overlay_def
        show_def DraggableOverlay_def default_style_def create_label_def
        create_resize_handle_def on_mouse_press_def is_in_resize_handle_def
        on_resize_press_def Let_def)

lemma resize_started_state:
  "ov_resizing resize_started \<and> ov_resizable resize_started
   \<and> ov_start_width resize_started = 200 \<and> ov_start_height resize_started = 100
   \<and> ov_start_x resize_started = 205 \<and> ov_start_y resize_started = 115
   \<and> ov_offset_x resize_started = 10 \<and> ov_offset_y resize_started = 20"
  by (simp add: resize_started_def tk0_def ev_at_def deliver_def create_overlay_def
        show_def DraggableOverlay_def default_style_def create_label_def
        create_resize_handle_def on_mouse_press_def is_in_resize_handle_def
        on_resize_press_def Let_def)

lemma point_pressed_state:
  "pt_dragging point_pressed \<and> pt_draggable point_pressed \<and> pt_point_size point_pressed = 8"
  by (simp add: point_pressed_def pt_on_mouse_press_def pt_show_def DraggablePoint_def
        pt_update_geometry_def pt_create_label_def Let_def)

text \<open>
  Claim C2, as the code has it. A move of a rectangle drag leaves \<open>x \<ge> 0\<close> and \<open>y \<ge> 0\<close>,
  and \<open>x \<le> screenWidth - width\<close> when the rectangle is no wider than the screen (the same
  for \<open>y\<close>, the height and the screen's height). A move of a point drag leaves
  \<open>x \<ge> pointSize\<close>, and \<open>x \<le> screenWidth - pointSize\<close> when the screen is at least two
  point sizes wide (the same for \<open>y\<close>). A move of a resize sets the width to
  \<open>min (max 50 (startWidth + dx)) (screenWidth - offsetX)\<close>: the cap by what is left of the
  screen comes after the floor, so the width is at least 50 when the window's left edge
  at the press was at least 50 pixels from the right edge of the screen (the same for
  the height). The release that ends the drag or the resize leaves the geometry as the
  last move set it.
\<close>

theorem drag_bounds:
  assumes "ov_dragging s" and "ov_draggable s" and "\<not> ov_resizing s"
    and "ov_resizing r" and "ov_resizable r"
    and "pt_dragging p" and "pt_draggable p"
  shows "0 \<le> ov_x (on_mouse_drag_global tk ev s) \<and> 0 \<le> ov_y (on_mouse_drag_global tk ev s)
     \<and> (ov_width s \<le> winfo_screenwidth tk \<longrightarrow>
          ov_x (on_mouse_drag_global tk ev s)
            \<le> winfo_screenwidth tk - ov_width (on_mouse_drag_global tk ev s))
     \<and> (ov_height s \<le> winfo_screenheight tk \<longrightarrow>
          ov_y (on_mouse_drag_global tk ev s)
            \<le> winfo_screenheight tk - ov_height (on_mouse_drag_global tk ev s))
     \<and> pt_point_size p \<le> pt_x (pt_on_mouse_drag tk ev p)
     \<and> pt_point_size p \<le> pt_y (pt_on_mouse_drag tk ev p)
     \<and> (2 * pt_point_size p \<le> winfo_screenwidth tk \<longrightarrow>
          pt_x (pt_on_mouse_drag tk ev p) \<le> winfo_screenwidth tk - pt_point_size p)
     \<and> (2 * pt_point_size p \<le> winfo_screenheight tk \<longrightarrow>
          pt_y (pt_on_mouse_drag tk ev p) \<le> winfo_screenheight tk - pt_point_size p)
     \<and> ov_width (on_resize_drag tk ev r) =
          min (max 50 (ov_start_width r + (x_root ev - ov_start_x r)))
              (winfo_screenwidth tk - ov_offset_x r)
     \<and> ov_height (on_resize_drag tk ev r) =
          min (max 50 (ov_start_height r + (y_root ev - ov_start_y r)))
              (winfo_screenheight tk - ov_offset_y r)
     \<and> (50 \<le> winfo_screenwidth tk - ov_offset_x r \<longrightarrow> 50 \<le> ov_width (on_resize_drag tk ev r))
     \<and> (50 \<le> winfo_screenheight tk - ov_offset_y r \<longrightarrow>
          50 \<le> ov_height (on_resize_drag tk ev r))
     \<and> get_position (on_mouse_release_global ev s) = get_position s
     \<and> get_position (on_mouse_release_global ev r) = get_position r
     \<and> pt_get_position (pt_on_mouse_release ev p) = pt_get_position p"
  using assms
  by (simp add: drag_position resize_size point_position geometry_release
        position_pt_release)

theorem drag_bounds_witness:
  "ov_dragging dragged \<and> ov_resizing resize_started \<and> pt_dragging point_pressed
   \<and> 0 \<le> ov_x (on_mouse_drag_global tk0 (ev_at 0 0 (- 500) (- 500)) dragged)
   \<and> ov_x (on_mouse_drag_global tk0 (ev_at 0 0 (- 500) (- 500)) dragged)
       \<le> winfo_screenwidth tk0
           - ov_width (on_mouse_drag_global tk0 (ev_at 0 0 (- 500) (- 500)) dragged)
   \<and> pt_point_size point_pressed
       \<le> pt_x (pt_on_mouse_drag tk0 (ev_at 0 0 (- 500) (- 500)) point_pressed)
   \<and> 50 \<le> ov_width (on_resize_drag tk0 (ev_at 0 0 (- 500) (- 500)) resize_started)"
proof -
  have a: "ov_dragging dragged" "ov_draggable dragged" "\<not> ov_resizing dragged"
    using dragged_state by simp_all
  have b: "ov_resizing resize_started" "ov_resizable resize_started"
    using resize_started_state by simp_all
  have c: "pt_dragging point_pressed" "pt_draggable point_pressed"
    using point_pressed_state by simp_all
  have room: "50 \<le> winfo_screenwidth tk0 - ov_offset_x resize_started"
    using resize_started_state by (simp add: tk0_def)
  have fits: "ov_width dragged \<le> winfo_screenwidth tk0"
    using dragged_state by (simp add: tk0_def get_position_def)
  show ?thesis
    using drag_bounds [OF a b c, of tk0 "ev_at 0 0 (- 500) (- 500)"] a b c room fits
    by blast
qed

text \<open>
  Claim C2 as stated fails twice. The rectangle at (1900, 10) on the 1920 wide screen,
  pressed on its handle and moved, is 20 wide: below the floor of 50. The rectangle 3000
  wide, dragged, sits at \<open>x = 0\<close>, which is more than \<open>screenWidth - width = -1080\<close>.
\<close>

theorem drag_bounds_counterexample:
  "ov_resizing resize_pressed \<and> ov_width resized_at_edge = 20 \<and> ov_width resized_at_edge < 50
   \<and> ov_x dragged_wide = 0 \<and> winfo_screenwidth tk_origin - ov_width dragged_wide = - 1080
   \<and> winfo_screenwidth tk_origin - ov_width dragged_wide < ov_x dragged_wide"
  by (simp add: resized_at_edge_def resize_pressed_def dragged_wide_def tk_edge_def
        tk_origin_def ev_at_def deliver_def create_overlay_def show_def DraggableOverlay_def
        default_style_def create_label_def create_resize_handle_def on_mouse_press_def
        is_in_resize_handle_def on_mouse_drag_global_def on_resize_press_def
        on_resize_drag_def update_geometry_def Let_def)

section \<open>The dispatcher's loop\<close>

text \<open>The recursive equations are used one step at a time.\<close>

declare drain_queue.simps [simp del]
declare run_tk_loop.simps [simp del]

lemma drain_Nil: "tk_queue d = [] \<Longrightarrow> drain_queue se d = d"
  by (subst drain_queue.simps) simp

lemma drain_Cons_True:
  "tk_queue d = (fut, f) # rest \<Longrightarrow>
   drain_queue True d =
     drain_queue True (d\<lparr>tk_queue := rest, futures := (futures d)(fut \<mapsto> Raised stopped)\<rparr>)"
  by (subst drain_queue.simps) simp

lemma drain_Cons_False:
  "tk_queue d = (fut, f) # rest \<Longrightarrow>
   drain_queue False d =
     drain_queue False
       (d\<lparr>tk_queue := rest, futures := (futures d)(fut \<mapsto> fst (f (app d))),
          app := snd (f (app d))\<rparr>)"
  by (subst drain_queue.simps) (simp add: case_prod_beta)

text \<open>Induction along the queue, for either mode of the drain.\<close>

lemma queue_induct:
  assumes empty: "\<And>d. tk_queue d = [] \<Longrightarrow> P d"
    and step: "\<And>d fut f rest. tk_queue d = (fut, f) # rest \<Longrightarrow>
        P (d\<lparr>tk_queue := rest, futures := (futures d)(fut \<mapsto> Raised stopped)\<rparr>) \<Longrightarrow>
        P (d\<lparr>tk_queue := rest, futures := (futures d)(fut \<mapsto> fst (f (app d))),
             app := snd (f (app d))\<rparr>) \<Longrightarrow> P d"
  shows "P d"
proof (induction "tk_queue d" arbitrary: d)
  case Nil
  then show ?case using empty by simp
next
  case (Cons c cs)
  obtain fut f where c: "c = (fut, f)" by (cases c)
  have q: "tk_queue d = (fut, f) # cs" using Cons.hyps(2) c by simp
  show ?case
    by (rule step [OF q]) (rule Cons.hyps(1), simp)+
qed

lemma drain_empties: "tk_queue (drain_queue se d) = []"
proof (induction d rule: queue_induct)
  case (1 d)
  then show ?case by (simp add: drain_Nil)
next
  case (2 d fut f rest)
  then show ?case by (cases se) (simp_all add: drain_Cons_True drain_Cons_False)
qed

lemma drain_flags:
  "stop_event (drain_queue se d) = stop_event d \<and> exited (drain_queue se d) = exited d"
proof (induction d rule: queue_induct)
  case (1 d)
  then show ?case by (simp add: drain_Nil)
next
  case (2 d fut f rest)
  then show ?case by (cases se) (simp_all add: drain_Cons_True drain_Cons_False)
qed

lemma drain_True_app: "app (drain_queue True d) = app d"
proof (induction d rule: queue_induct)
  case (1 d)
  then show ?case by (simp add: drain_Nil)
next
  case (2 d fut f rest)
  then show ?case by (simp add: drain_Cons_True)
qed

lemma drain_True_futures:
  "futures (drain_queue True d) fut =
     (if fut \<in> fst ` set (tk_queue d) then Some (Raised stopped) else futures d fut)"
proof (induction d rule: queue_induct)
  case (1 d)
  then show ?case by (simp add: drain_Nil)
next
  case (2 d fut' f rest)
  then show ?case by (simp add: drain_Cons_True)
qed

lemma drain_other_futures:
  "fut \<notin> fst ` set (tk_queue d) \<Longrightarrow> futures (drain_queue se d) fut = futures d fut"
proof (induction d rule: queue_induct)
  case (1 d)
  then show ?case by (simp add: drain_Nil)
next
  case (2 d fut' f rest)
  then show ?case by (cases se) (simp_all add: drain_Cons_True drain_Cons_False)
qed

lemma drain_False_append:
  "tk_queue d = xs @ ys \<Longrightarrow>
   drain_queue False d =
     drain_queue False ((drain_queue False (d\<lparr>tk_queue := xs\<rparr>))\<lparr>tk_queue := ys\<rparr>)"
proof (induction xs arbitrary: d)
  case Nil
  have "d\<lparr>tk_queue := ys\<rparr> = d" using Nil.prems [symmetric] by simp
  then show ?case by (simp add: drain_Nil)
next
  case (Cons c cs)
  obtain fut f where c: "c = (fut, f)" by (cases c)
  let ?D1 = "d\<lparr>tk_queue := cs @ ys, futures := (futures d)(fut \<mapsto> fst (f (app d))),
                app := snd (f (app d))\<rparr>"
  let ?dc = "d\<lparr>tk_queue := (fut, f) # cs\<rparr>"
  let ?D2 = "?dc\<lparr>tk_queue := cs, futures := (futures ?dc)(fut \<mapsto> fst (f (app ?dc))),
                 app := snd (f (app ?dc))\<rparr>"
  have q: "tk_queue d = (fut, f) # (cs @ ys)" using Cons.prems c by simp
  have s1: "drain_queue False d = drain_queue False ?D1" by (rule drain_Cons_False [OF q])
  have ih: "drain_queue False ?D1 =
              drain_queue False ((drain_queue False (?D1\<lparr>tk_queue := cs\<rparr>))\<lparr>tk_queue := ys\<rparr>)"
    by (rule Cons.IH) simp
  have eq: "?D1\<lparr>tk_queue := cs\<rparr> = ?D2" by (cases d) simp
  have s2: "drain_queue False ?dc = drain_queue False ?D2" by (rule drain_Cons_False) simp
  have "drain_queue False d = drain_queue False ((drain_queue False ?D2)\<lparr>tk_queue := ys\<rparr>)"
    using s1 ih by (simp only: eq)
  then have "drain_queue False d = drain_queue False ((drain_queue False ?dc)\<lparr>tk_queue := ys\<rparr>)"
    by (simp only: s2)
  then show ?case by (simp only: c)
qed

lemma drain_outcome:
  assumes q: "tk_queue d = pre @ (fut, f) # post"
    and fresh: "fut \<notin> fst ` set post"
  shows "futures (drain_queue False d) fut =
           Some (fst (f (app (drain_queue False (d\<lparr>tk_queue := pre\<rparr>)))))"
proof -
  let ?d1 = "drain_queue False (d\<lparr>tk_queue := pre\<rparr>)"
  let ?d2 = "?d1\<lparr>tk_queue := post, futures := (futures ?d1)(fut \<mapsto> fst (f (app ?d1))),
                 app := snd (f (app ?d1))\<rparr>"
  have "drain_queue False d = drain_queue False (?d1\<lparr>tk_queue := (fut, f) # post\<rparr>)"
    using q by (rule drain_False_append)
  also have "\<dots> = drain_queue False ?d2"
    by (simp add: drain_Cons_False [of "?d1\<lparr>tk_queue := (fut, f) # post\<rparr>" fut f post])
  finally have "futures (drain_queue False d) fut = futures (drain_queue False ?d2) fut"
    by simp
  also have "\<dots> = futures ?d2 fut"
    using fresh by (simp add: drain_other_futures)
  finally show ?thesis by simp
qed

text \<open>
  A call made after the worker has ended starts another worker. When the stop event is
  set, that worker fails its first test of the loop condition: it completes what is
  queued with the stopped failure and ends.
\<close>

lemma worker_started_after_stop:
  assumes "exited d" "stop_event d"
  shows "run_tk_loop (t # ts) (ensure_tk_thread d) =
           leave_loop ((ensure_tk_thread d)\<lparr>tk_queue := tk_queue d @ arrivals t\<rparr>)"
    and "\<not> exited (ensure_tk_thread d)"
  using assms by (simp_all add: ensure_tk_thread_def run_tk_loop.simps)

section \<open>C3: a closure that raises\<close>

lemma leave_loop_facts:
  "exited (leave_loop d) \<and> tk_queue (leave_loop d) = [] \<and> app (leave_loop d) = app d
   \<and> futures (leave_loop d) fut =
       (if fut \<in> fst ` set (tk_queue d) then Some (Raised stopped) else futures d fut)"
  by (simp add: leave_loop_def drain_empties drain_True_app drain_True_futures)

lemma one_pass:
  assumes "\<not> exited d" "\<not> stop_event d"
    and "ui_update t (app (drain_queue False (d\<lparr>tk_queue := tk_queue d @ arrivals t\<rparr>))) = Some a"
  shows "run_tk_loop (t # ts) d =
           run_tk_loop ts
             ((drain_queue False (d\<lparr>tk_queue := tk_queue d @ arrivals t\<rparr>))
                \<lparr>app := a, stop_event := stop_requested t\<rparr>)"
  using assms by (simp add: run_tk_loop.simps Let_def drain_flags)





lemma getRect_closure_ok: "getRect_closure ''ok'' m_ex = (Returned (PyDict [(''x'', 1)]), m_ex)"
  by (simp add: getRect_closure_def getRect_def m_ex_def bind_def)



section \<open>C4: what is still queued at the stop\<close>

lemma stop_seen:
  assumes "\<not> exited d" "stop_event d"
  shows "run_tk_loop (t # ts) d = leave_loop (d\<lparr>tk_queue := tk_queue d @ arrivals t\<rparr>)"
  using assms by (simp add: run_tk_loop.simps)

lemma same_queue: "tk_queue x = q \<Longrightarrow> x\<lparr>tk_queue := q\<rparr> = x"
  by (cases x) auto

lemma destroy_running:
  assumes "\<not> exited d" "\<not> stop_event d"
  shows "destroy fd d =
           leave_loop ((drain_queue False (d\<lparr>tk_queue := tk_queue d @ [(fd, destroy_closure)]\<rparr>))
                         \<lparr>stop_event := True\<rparr>)"
proof -
  let ?t1 = "\<lparr>arrivals = [(fd, destroy_closure)], ui_update = Some, stop_requested = True\<rparr>
               :: (manager, py_value) tick"
  let ?t2 = "\<lparr>arrivals = [], ui_update = Some, stop_requested = False\<rparr> :: (manager, py_value) tick"
  let ?d1 = "drain_queue False (d\<lparr>tk_queue := tk_queue d @ [(fd, destroy_closure)]\<rparr>)"
  have ui: "ui_update ?t1 (app (drain_queue False (d\<lparr>tk_queue := tk_queue d @ arrivals ?t1\<rparr>)))
              = Some (app ?d1)" by simp
  have "destroy fd d = run_tk_loop [?t2] (?d1\<lparr>app := app ?d1, stop_event := True\<rparr>)"
    using one_pass [OF assms ui, of "[?t2]"] by (simp add: destroy_def)
  also have "?d1\<lparr>app := app ?d1, stop_event := True\<rparr> = ?d1\<lparr>stop_event := True\<rparr>" by simp
  also have "run_tk_loop [?t2] (?d1\<lparr>stop_event := True\<rparr>) = leave_loop (?d1\<lparr>stop_event := True\<rparr>)"
  proof -
    have e: "tk_queue (?d1\<lparr>stop_event := True\<rparr>) = []" by (simp add: drain_empties)
    have "(?d1\<lparr>stop_event := True\<rparr>)\<lparr>tk_queue := tk_queue (?d1\<lparr>stop_event := True\<rparr>) @ arrivals ?t2\<rparr>
            = ?d1\<lparr>stop_event := True\<rparr>"
      using e by (simp add: same_queue)
    moreover have "\<not> exited (?d1\<lparr>stop_event := True\<rparr>)" "stop_event (?d1\<lparr>stop_event := True\<rparr>)"
      using assms by (simp_all add: drain_flags)
    ultimately show ?thesis using stop_seen [of "?d1\<lparr>stop_event := True\<rparr>" ?t2 "[]"] by simp
  qed
  finally show ?thesis .
qed

text \<open>
  Claim C4, as the code has it. When the worker finds the stop event set, every command
  on the queue, and every one that arrives before the last drain finds it empty, has its
  slot completed with the failure \<open>Tk loop already stopped\<close>, which is raised in its
  caller; none is run, and the worker leaves the loop. A command already queued when
  \<open>destroy()\<close> is called on a running dispatcher is not one of them: \<open>destroy\<close> queues
  its own closure behind it and sets the stop event only after that closure has run, so
  the command is run first and its slot holds its own outcome. In both cases no caller
  stays blocked.
\<close>

theorem queued_at_stop_fails_stopped:
  assumes leaving: "\<not> exited d" "stop_event d"
    and queued: "c \<in> set (tk_queue d @ arrivals t)"
    and running: "\<not> exited d'" "\<not> stop_event d'"
    and pending: "tk_queue d' = pre @ (fut, f) # post"
    and fresh: "fut \<notin> fst ` set post" "fut \<noteq> fd"
  shows "future_result (run_tk_loop (t # ts) d) (fst c) = Some (Inl stopped)
       \<and> tk_queue (run_tk_loop (t # ts) d) = []
       \<and> app (run_tk_loop (t # ts) d) = app d
       \<and> exited (run_tk_loop (t # ts) d)
       \<and> futures (destroy fd d') fut =
           Some (fst (f (app (drain_queue False (d'\<lparr>tk_queue := pre\<rparr>)))))
       \<and> tk_queue (destroy fd d') = []
       \<and> exited (destroy fd d')"
proof -
  let ?d0 = "d\<lparr>tk_queue := tk_queue d @ arrivals t\<rparr>"
  have r: "run_tk_loop (t # ts) d = leave_loop ?d0" using leaving by (rule stop_seen)
  have "fst c \<in> fst ` set (tk_queue ?d0)" using queued by simp
  then have a1: "future_result (run_tk_loop (t # ts) d) (fst c) = Some (Inl stopped)"
    by (simp add: r leave_loop_facts future_result_def)
  have a2: "tk_queue (run_tk_loop (t # ts) d) = []" by (simp add: r leave_loop_facts)
  have a3: "app (run_tk_loop (t # ts) d) = app d" by (simp add: r leave_loop_facts)
  have a4: "exited (run_tk_loop (t # ts) d)" by (simp add: r leave_loop_facts)
  let ?q = "d'\<lparr>tk_queue := tk_queue d' @ [(fd, destroy_closure)]\<rparr>"
  let ?d1 = "drain_queue False ?q"
  have dr: "destroy fd d' = leave_loop (?d1\<lparr>stop_event := True\<rparr>)"
    using running by (rule destroy_running)
  have q: "tk_queue ?q = pre @ (fut, f) # (post @ [(fd, destroy_closure)])"
    using pending by simp
  have fr: "fut \<notin> fst ` set (post @ [(fd, destroy_closure)])" using fresh by auto
  have "futures ?d1 fut = Some (fst (f (app (drain_queue False (?q\<lparr>tk_queue := pre\<rparr>)))))"
    by (rule drain_outcome [OF q fr])
  then have b1: "futures (destroy fd d') fut =
                   Some (fst (f (app (drain_queue False (d'\<lparr>tk_queue := pre\<rparr>)))))"
    by (simp add: dr leave_loop_facts drain_empties)
  have b2: "tk_queue (destroy fd d') = []" by (simp add: dr leave_loop_facts)
  have b3: "exited (destroy fd d')" by (simp add: dr leave_loop_facts)
  from a1 a2 a3 a4 b1 b2 b3 show ?thesis by blast
qed

lemma d_pending_drained: "app (drain_queue False (d_pending\<lparr>tk_queue := []\<rparr>)) = m_ex"
  by (simp add: d_pending_def put_def d_running_def drain_Nil)

theorem queued_at_stop_fails_stopped_witness:
  "future_result (run_tk_loop [idle_tick] d_stopping) 7 = Some (Inl stopped)
   \<and> exited (run_tk_loop [idle_tick] d_stopping)
   \<and> futures (destroy 8 d_pending) 7 = Some (Returned (PyDict [(''x'', 1)]))
   \<and> exited (destroy 8 d_pending)"
proof -
  have leaving: "\<not> exited d_stopping" "stop_event d_stopping" by (simp_all add: d_stopping_def put_def d_running_def)
  have queued: "(7, getRect_closure ''ok'') \<in> set (tk_queue d_stopping @ arrivals idle_tick)"
    by (simp add: d_stopping_def put_def d_running_def)
  have running: "\<not> exited d_pending" "\<not> stop_event d_pending" by (simp_all add: d_pending_def put_def d_running_def)
  have pending: "tk_queue d_pending = [] @ (7, getRect_closure ''ok'') # []"
    by (simp add: d_pending_def put_def d_running_def)
  have fresh: "7 \<notin> fst ` set ([] :: (manager, py_value) command list)" "(7::nat) \<noteq> 8" by simp_all
  show ?thesis
    using queued_at_stop_fails_stopped [OF leaving queued running pending fresh, of "[]"]
    by (simp add: d_pending_drained getRect_closure_ok)
qed

text \<open>
  Claim C4 as stated fails for the submit it names. One \<open>getRect\<close> call is queued and
  not yet run when \<open>destroy()\<close> is called: the call is run and its caller gets the
  rectangle, not the stopped failure.
\<close>

theorem pending_at_destroy_counterexample:
  "future_result (destroy 8 d_pending) 7 = Some (Inr (PyDict [(''x'', 1)]))
   \<and> future_result (destroy 8 d_pending) 7 \<noteq> Some (Inl stopped)
   \<and> future_result (destroy 8 d_pending) 8 = Some (Inr PyNone)
   \<and> exited (destroy 8 d_pending) \<and> tk_queue (destroy 8 d_pending) = []"
proof -
  have running: "\<not> exited d_pending" "\<not> stop_event d_pending" by (simp_all add: d_pending_def put_def d_running_def)
  show ?thesis
    by (simp add: destroy_running [OF running] leave_loop_facts future_result_def drain_empties)
       (simp add: d_pending_def put_def d_running_def drain_Cons_False drain_Nil getRect_closure_ok destroy_closure_def)
qed

section \<open>The configuration store\<close>

lemma names_differ:
  "tmp_path \<noteq> CONFIG_FILENAME" "CONFIG_FILENAME \<noteq> tmp_path"
  "CONFIG_FILENAME \<noteq> ''rects.json''" "CONFIG_FILENAME \<noteq> ''points.json''"
  "''rects.json'' \<noteq> CONFIG_FILENAME" "''points.json'' \<noteq> CONFIG_FILENAME"
  by (simp_all add: tmp_path_def CONFIG_FILENAME_def)

section \<open>C5: what a load can raise\<close>

text \<open>
  Claim C5 fails on the code. A unified file whose bytes are not UTF-8 makes \<open>json.load\<close>
  raise \<open>UnicodeDecodeError\<close>, which \<open>except (json.JSONDecodeError, OSError)\<close> does not
  catch: \<open>_load_all_configs\<close> raises it instead of treating the document as empty.
\<close>

theorem load_raises_on_undecodable: "load_all_configs fs_undecodable = Inl UnicodeDecodeError"
  by (simp add: load_all_configs_def fs_undecodable_def caught_def)

lemma is_dict_namespace: "is_dict (namespace kvs key)"
  by (simp add: namespace_def split: option.splits)

lemma load_legacy_file_dict: "load_legacy_file name fs = Inr v \<Longrightarrow> is_dict v"
  by (auto simp add: load_legacy_file_def split: option.splits sum.splits if_splits)

lemma load_legacy_file_ok:
  "files fs name \<notin> {Some Undecodable, Some HugeInteger, Some TooDeep} \<Longrightarrow>
   \<exists>v. load_legacy_file name fs = Inr v"
  by (cases "files fs name"; cases "the (files fs name)")
     (simp_all add: load_legacy_file_def caught_def)

lemma load_unified_present:
  assumes "files fs CONFIG_FILENAME = Some f" "f \<notin> {Undecodable, HugeInteger, TooDeep}"
  shows "\<exists>r p. load_all_configs fs = Inr (JObj [(''rects'', r), (''points'', p)], fs)
               \<and> is_dict r \<and> is_dict p"
  using assms
  by (cases f) (simp_all add: load_all_configs_def caught_def Let_def is_dict_namespace)

text \<open>
  The failures the handler does catch or that are none: in a writable directory, when
  none of the three files holds undecodable bytes, an over-long integer literal or text
  nested too deep, the load returns a document with both namespaces, each a \<open>dict\<close>.
\<close>

lemma load_total_when_caught:
  assumes "files fs CONFIG_FILENAME \<notin> {Some Undecodable, Some HugeInteger, Some TooDeep}"
    and "files fs ''rects.json'' \<notin> {Some Undecodable, Some HugeInteger, Some TooDeep}"
    and "files fs ''points.json'' \<notin> {Some Undecodable, Some HugeInteger, Some TooDeep}"
    and "writable fs"
  shows "\<exists>r p fs'. load_all_configs fs = Inr (JObj [(''rects'', r), (''points'', p)], fs')
                   \<and> is_dict r \<and> is_dict p"
proof (cases "files fs CONFIG_FILENAME")
  case (Some f)
  then show ?thesis using assms(1) load_unified_present [of fs f] by auto
next
  case None
  obtain rs where rs: "load_legacy_file ''rects.json'' fs = Inr rs"
    using load_legacy_file_ok [OF assms(2)] by auto
  obtain ps where ps: "load_legacy_file ''points.json'' fs = Inr ps"
    using load_legacy_file_ok [OF assms(3)] by auto
  have "is_dict rs" "is_dict ps" using rs ps by (auto dest: load_legacy_file_dict)
  then show ?thesis
    using None rs ps assms(4)
    by (simp add: load_all_configs_def migrate_legacy_configs_def write_config_file_def Let_def)
qed

text \<open>
  The other contents that get past the handler, like the undecodable bytes of claim C5:
  an integer literal of more digits than the limit, and text nested too deep. And a
  migration whose write fails raises \<open>OSError\<close>.
\<close>

lemma load_raises_further:
  "files fs CONFIG_FILENAME = Some HugeInteger \<Longrightarrow> load_all_configs fs = Inl ValueError"
  "files fs CONFIG_FILENAME = Some TooDeep \<Longrightarrow> load_all_configs fs = Inl RecursionError"
  "files fs CONFIG_FILENAME = None \<Longrightarrow> files fs ''rects.json'' = Some (Document (JObj (kv # kvs)))
     \<Longrightarrow> files fs ''points.json'' = None \<Longrightarrow> \<not> writable fs
     \<Longrightarrow> load_all_configs fs = Inl OSError"
  by (simp_all add: load_all_configs_def migrate_legacy_configs_def load_legacy_file_def
        write_config_file_def caught_def Let_def)

section \<open>C7: the write is atomic\<close>

lemma write_path_last:
  "last (write_path data fs) =
     fs\<lparr>files := ((files fs)(tmp_path := None))(CONFIG_FILENAME \<mapsto> Document data)\<rparr>"
  by (simp add: write_path_def replace_def Let_def names_differ fun_upd_twist)

lemma canonical_old_or_new:
  "files (write_interrupted k data fs) CONFIG_FILENAME = files fs CONFIG_FILENAME
   \<or> files (write_interrupted k data fs) CONFIG_FILENAME = Some (Document data)"
proof -
  have "min k 3 = 0 \<or> min k 3 = 1 \<or> min k 3 = 2 \<or> min k 3 = 3" by arith
  then show ?thesis
    by (auto simp add: write_interrupted_def write_path_def replace_def Let_def names_differ
          numeral_2_eq_2 numeral_3_eq_3)
qed

lemma write_interrupted_3: "write_interrupted (3 + k) data fs = last (write_path data fs)"
  by (simp add: write_interrupted_def write_path_def Let_def numeral_3_eq_3)

text \<open>
  Claim C7. \<open>_write_config_file\<close> writes the document to the temporary file and then
  renames that file onto the canonical path. Interrupted after any number \<open>k\<close> of its
  steps, it leaves the canonical path holding what it held before or the complete new
  document: after one step the temporary file is incomplete and after two it is
  complete, the canonical path untouched both times; from the third step on the
  canonical path holds the new document and the temporary file is gone. Run to its end
  in a writable directory it is the state after the third step. \<open>_save_all_configs\<close>
  writes the full document, both namespaces, this way.
\<close>

theorem write_is_atomic:
  "(files (write_interrupted k data fs) CONFIG_FILENAME = files fs CONFIG_FILENAME
    \<or> files (write_interrupted k data fs) CONFIG_FILENAME = Some (Document data))
   \<and> files (write_interrupted 1 data fs) tmp_path = Some (Truncated data)
   \<and> files (write_interrupted 1 data fs) CONFIG_FILENAME = files fs CONFIG_FILENAME
   \<and> files (write_interrupted 2 data fs) tmp_path = Some (Document data)
   \<and> files (write_interrupted 2 data fs) CONFIG_FILENAME = files fs CONFIG_FILENAME
   \<and> files (write_interrupted (3 + k) data fs) CONFIG_FILENAME = Some (Document data)
   \<and> files (write_interrupted (3 + k) data fs) tmp_path = None
   \<and> write_config_file data fs =
        (if writable fs then Inr (write_interrupted 3 data fs) else Inl OSError)
   \<and> disk (save_all_configs m) =
        (if writable (disk m)
         then write_interrupted 3
                (JObj [(''rects'', JObj (rect_configs m)), (''points'', JObj (point_configs m))])
                (disk m)
         else disk m)"
proof -
  have w3: "write_interrupted 3 d f = last (write_path d f)" for d f
    using write_interrupted_3 [of 0 d f] by simp
  have a: "files (write_interrupted 1 data fs) tmp_path = Some (Truncated data)"
          "files (write_interrupted 1 data fs) CONFIG_FILENAME = files fs CONFIG_FILENAME"
          "files (write_interrupted 2 data fs) tmp_path = Some (Document data)"
          "files (write_interrupted 2 data fs) CONFIG_FILENAME = files fs CONFIG_FILENAME"
    by (simp_all add: write_interrupted_def write_path_def Let_def names_differ numeral_2_eq_2)
  have b: "files (write_interrupted (3 + k) data fs) CONFIG_FILENAME = Some (Document data)"
          "files (write_interrupted (3 + k) data fs) tmp_path = None"
    by (simp_all add: write_interrupted_3 write_path_last names_differ)
  have c: "write_config_file data fs =
             (if writable fs then Inr (write_interrupted 3 data fs) else Inl OSError)"
    by (simp add: write_config_file_def w3)
  have d: "disk (save_all_configs m) =
        (if writable (disk m)
         then write_interrupted 3
                (JObj [(''rects'', JObj (rect_configs m)), (''points'', JObj (point_configs m))])
                (disk m)
         else disk m)"
    by (simp add: save_all_configs_def write_config_file_def w3 Let_def)
  from canonical_old_or_new [of k data fs] a b c d show ?thesis by blast
qed

section \<open>C6: migration of the legacy files\<close>

lemma load_after_write:
  assumes "files fs CONFIG_FILENAME = Some (Document (JObj [(''rects'', r), (''points'', p)]))"
    and "is_dict r" "is_dict p"
  shows "load_all_configs fs = Inr (JObj [(''rects'', r), (''points'', p)], fs)"
  using assms by (simp add: load_all_configs_def namespace_def Let_def)

text \<open>
  Claim C6, as the code has it. The unified file is absent, neither legacy read raises,
  at least one of the two legacy dictionaries is not empty, and the write of the merged
  document succeeds. Then the first load returns the document made of both legacy
  namespaces and leaves it at the canonical path; and a load from any directory that
  holds that unified file, whatever its legacy files are by then, returns the same
  document.
\<close>

theorem migration_happens_once:
  assumes absent: "files fs CONFIG_FILENAME = None"
    and rects: "load_legacy_file ''rects.json'' fs = Inr rs"
    and points: "load_legacy_file ''points.json'' fs = Inr ps"
    and nonempty: "truthy rs \<or> truthy ps"
    and written: "write_config_file (JObj [(''rects'', rs), (''points'', ps)]) fs = Inr fs'"
    and later: "files fs'' CONFIG_FILENAME = files fs' CONFIG_FILENAME"
  shows "load_all_configs fs = Inr (JObj [(''rects'', rs), (''points'', ps)], fs')
       \<and> files fs' CONFIG_FILENAME = Some (Document (JObj [(''rects'', rs), (''points'', ps)]))
       \<and> load_all_configs fs'' = Inr (JObj [(''rects'', rs), (''points'', ps)], fs'')"
proof -
  let ?doc = "JObj [(''rects'', rs), (''points'', ps)]"
  have m: "migrate_legacy_configs fs = Inr (Some ?doc, fs')"
    using rects points nonempty written by (auto simp add: migrate_legacy_configs_def Let_def)
  have first: "load_all_configs fs = Inr (?doc, fs')"
    using absent m by (simp add: load_all_configs_def)
  have fs': "fs' = last (write_path ?doc fs)"
    using written by (simp add: write_config_file_def split: if_splits)
  have canon: "files fs' CONFIG_FILENAME = Some (Document ?doc)"
    by (simp add: fs' write_path_last)
  have dicts: "is_dict rs" "is_dict ps"
    using rects points by (auto dest: load_legacy_file_dict)
  have second: "load_all_configs fs'' = Inr (?doc, fs'')"
    using later canon dicts by (simp add: load_after_write)
  from first canon second show ?thesis by blast
qed

lemma fs_legacy_loads:
  "load_legacy_file ''rects.json'' fs_legacy = Inr (JObj [(''a'', JObj [(''x'', JInt 1)])])"
  "load_legacy_file ''points.json'' fs_legacy = Inr (JObj [(''p'', JObj [(''y'', JInt 2)])])"
  by (simp_all add: load_legacy_file_def fs_legacy_def)

theorem migration_happens_once_witness:
  "load_all_configs fs_legacy = Inr (migrated, fs_migrated)
   \<and> load_all_configs (fs_migrated\<lparr>files := (files fs_migrated)(''rects.json'' \<mapsto> Malformed)\<rparr>)
       = Inr (migrated, fs_migrated\<lparr>files := (files fs_migrated)(''rects.json'' \<mapsto> Malformed)\<rparr>)"
proof -
  have absent: "files fs_legacy CONFIG_FILENAME = None"
    by (simp add: fs_legacy_def names_differ)
  have nonempty: "truthy (JObj [(''a'', JObj [(''x'', JInt 1)])]) \<or> truthy (JObj [(''p'', JObj [(''y'', JInt 2)])])"
    by simp
  have written: "write_config_file (JObj [(''rects'', JObj [(''a'', JObj [(''x'', JInt 1)])]),
                    (''points'', JObj [(''p'', JObj [(''y'', JInt 2)])])]) fs_legacy = Inr fs_migrated"
    by (simp add: write_config_file_def write_path_last fs_migrated_def migrated_def)
       (simp add: fs_legacy_def)
  have later: "files (fs_migrated\<lparr>files := (files fs_migrated)(''rects.json'' \<mapsto> Malformed)\<rparr>) CONFIG_FILENAME
                 = files fs_migrated CONFIG_FILENAME"
    by (simp add: names_differ)
  show ?thesis
    using migration_happens_once [OF absent fs_legacy_loads nonempty written later]
    by (simp add: migrated_def)
qed

text \<open>
  When both legacy dictionaries are empty (a file missing, unreadable, malformed, not an
  object, or an empty object) nothing is written: the load returns the two empty
  namespaces and leaves the directory as it was, the canonical path still absent.
\<close>

lemma empty_legacy_writes_nothing:
  assumes "files fs CONFIG_FILENAME = None"
    and "load_legacy_file ''rects.json'' fs = Inr rs"
    and "load_legacy_file ''points.json'' fs = Inr ps"
    and "\<not> truthy rs" "\<not> truthy ps"
  shows "load_all_configs fs = Inr (JObj [(''rects'', JObj []), (''points'', JObj [])], fs)"
  using assms by (simp add: load_all_configs_def migrate_legacy_configs_def)

text \<open>
  Claim C6 as stated fails for a legacy file that holds a readable but empty object:
  the first load writes nothing, the canonical path stays absent, and after the legacy
  file has been modified the next load reads it.
\<close>

theorem empty_legacy_counterexample:
  "load_all_configs fs_empty_legacy
     = Inr (JObj [(''rects'', JObj []), (''points'', JObj [])], fs_empty_legacy)
   \<and> files fs_empty_legacy CONFIG_FILENAME = None
   \<and> load_all_configs
       (fs_empty_legacy\<lparr>files := (files fs_empty_legacy)(''rects.json'' \<mapsto> Document (JObj [(''a'', JObj [(''x'', JInt 1)])]))\<rparr>)
     \<noteq> Inr (JObj [(''rects'', JObj []), (''points'', JObj [])],
            fs_empty_legacy\<lparr>files := (files fs_empty_legacy)(''rects.json'' \<mapsto> Document (JObj [(''a'', JObj [(''x'', JInt 1)])]))\<rparr>)
   \<and> map_sum id fst
        (load_all_configs
          (fs_empty_legacy\<lparr>files := (files fs_empty_legacy)(''rects.json'' \<mapsto> Document (JObj [(''a'', JObj [(''x'', JInt 1)])]))\<rparr>))
     = Inr (JObj [(''rects'', JObj [(''a'', JObj [(''x'', JInt 1)])]), (''points'', JObj [])])"
  by (simp add: load_all_configs_def migrate_legacy_configs_def load_legacy_file_def
        fs_empty_legacy_def names_differ write_config_file_def Let_def)

section \<open>C10: the getters on a persisted record\<close>






text \<open>What \<open>int\<close> refuses: the values that are no number, and the strings it cannot read.\<close>

lemma py_int_refuses:
  "py_int JNull = Inl TypeError"
  "py_int (JArr xs) = Inl TypeError"
  "py_int (JObj kvs) = Inl TypeError"
  "py_int (JFloat NaN) = Inl ValueError"
  "py_int (JFloat PosInf) = Inl OverflowError"
  "py_int (JFloat NegInf) = Inl OverflowError"
  "int_of_str s = None \<Longrightarrow> py_int (JStr s) = Inl ValueError"
  by simp_all

lemma int_of_str_digit_limit:
  "max_str_digits < length (filter is_digit (strip s)) \<Longrightarrow> int_of_str s = None"
  by (cases "strip s") (simp_all add: int_of_str_def)






section \<open>Registration: creating and updating a rectangle\<close>

lemma update_geometry_keeps:
  "get_position (update_geometry s) = get_position s"
  "ov_visible (update_geometry s) = ov_visible s"
  "ov_notified (update_geometry s) = ov_notified s"
  "ov_label_widget (update_geometry s) = ov_label_widget s"
  "ov_resizable (update_geometry s) = ov_resizable s"
  by (simp_all add: update_geometry_def get_position_def split: option.splits)

lemma create_label_keeps:
  "get_position (create_label s) = get_position s"
  "ov_visible (create_label s) = ov_visible s"
  "ov_notified (create_label s) = ov_notified s"
  "ov_resizable (create_label s) = ov_resizable s"
  by (simp_all add: create_label_def get_position_def)

lemma create_resize_handle_keeps:
  "get_position (create_resize_handle s) = get_position s"
  "ov_visible (create_resize_handle s) = ov_visible s"
  "ov_notified (create_resize_handle s) = ov_notified s"
  by (simp_all add: create_resize_handle_def get_position_def)

lemma update_position_silent:
  "get_position (update_position x y False s) = (x, y, ov_width s, ov_height s)"
  "ov_visible (update_position x y False s) = ov_visible s"
  "ov_notified (update_position x y False s) = ov_notified s"
  by (simp_all add: update_position_def Let_def update_geometry_keeps)
     (simp_all add: get_position_def update_geometry_def split: option.splits)

lemma update_size_silent:
  "get_position (update_size w h False s) = (ov_x s, ov_y s, max 50 w, max 50 h)"
  "ov_visible (update_size w h False s) = ov_visible s"
  "ov_notified (update_size w h False s) = ov_notified s"
  by (simp_all add: update_size_def Let_def update_geometry_keeps create_label_keeps
        create_resize_handle_keeps)
     (simp_all add: get_position_def)

lemma update_label_keeps:
  "get_position (update_label l s) = get_position s"
  "ov_visible (update_label l s) = ov_visible s"
  "ov_notified (update_label l s) = ov_notified s"
  by (simp_all add: update_label_def Let_def create_label_keeps)
     (simp_all add: get_position_def)

lemma show_keeps:
  "get_position (show s) = get_position s"
  "ov_visible (show s)"
  "ov_notified (show s) = ov_notified s"
  by (simp_all add: show_def Let_def create_label_keeps create_resize_handle_keeps)
     (simp_all add: get_position_def create_label_def create_resize_handle_def)

lemma create_overlay_facts:
  "get_position (create_overlay x y w h l cb st) = (x, y, w, h)"
  "ov_visible (create_overlay x y w h l cb st)"
  "ov_notified (create_overlay x y w h l cb st) = []"
  by (simp_all add: create_overlay_def show_keeps)
     (simp_all add: DraggableOverlay_def get_position_def)

lemma get_position_fields:
  "get_position s = (a, b, c, d) \<Longrightarrow> ov_x s = a \<and> ov_y s = b \<and> ov_width s = c \<and> ov_height s = d"
  by (simp add: get_position_def)

lemma registerRect_twice_same:
  assumes big: "50 \<le> w" "50 \<le> h"
    and fresh: "rects m rid = None"
    and once: "registerRect rid label (Some x) (Some y) (Some w) (Some h) st m = Inr m1"
  shows "\<exists>m2. registerRect rid label (Some x) (Some y) (Some w) (Some h) st m1 = Inr m2
            \<and> map_option get_position (rects m1 rid) = Some (x, y, w, h)
            \<and> map_option get_position (rects m2 rid) = Some (x, y, w, h)
            \<and> map_option ov_notified (rects m2 rid) = Some []
            \<and> map_option ov_visible (rects m2 rid) = Some True"
proof -
  let ?config = "case map_of (rect_configs m) rid of None \<Rightarrow> JObj [] | Some c \<Rightarrow> c"
  let ?lab = "if label \<noteq> [] then Inr (JStr label) else dict_get ?config ''label'' (JStr rid)"
  obtain rect_label where lab: "?lab = Inr rect_label"
    using once fresh by (cases ?lab) (simp_all add: registerRect_def merged_def bind_def)
  let ?ov = "create_overlay x y w h rect_label (Some (rid, rect_label)) st"
  have m1: "m1 = m\<lparr>rects := (rects m)(rid \<mapsto> ?ov)\<rparr>"
    using once fresh lab by (simp add: registerRect_def merged_def bind_def)
  let ?ov2 = "show (update_label rect_label (update_size w h False (update_position x y False ?ov)))"
  have twice: "registerRect rid label (Some x) (Some y) (Some w) (Some h) st m1 =
                 Inr (m1\<lparr>rects := (rects m1)(rid \<mapsto> ?ov2)\<rparr>)"
    using lab by (simp add: m1 registerRect_def merged_def bind_def)
  have p: "get_position (update_position x y False ?ov) = (x, y, w, h)"
    using get_position_fields [OF create_overlay_facts(1), of x y w h rect_label "Some (rid, rect_label)" st]
    by (simp add: update_position_silent)
  have ov2: "get_position ?ov2 = (x, y, w, h)" "ov_notified ?ov2 = []" "ov_visible ?ov2"
    using big get_position_fields [OF p]
    by (simp_all add: show_keeps update_label_keeps update_size_silent update_position_silent
          create_overlay_facts)
  show ?thesis using twice ov2 by (simp add: m1 create_overlay_facts)
qed

text \<open>
  The closure \<open>_callback\<close> that \<open>registerRect\<close> hands to the marker overwrites the
  marker's record with the geometry it is called with and the label it captured.
\<close>

lemma map_of_dict_set: "map_of (dict_set kvs key v) key = Some v"
  by (induction kvs) auto

lemma rect_callback_persists:
  "map_of (rect_configs (rect_callback (rect_id, rect_label) (nx, ny, w, h) m)) rect_id =
     Some (JObj [(''x'', JInt nx), (''y'', JInt ny), (''width'', JInt w), (''height'', JInt h),
                 (''label'', rect_label)])"
  by (simp add: rect_callback_def save_all_configs_def map_of_dict_set Let_def
        split: sum.splits)

section \<open>C1: a persisted size below the floor\<close>

text \<open>
  Claim C1 fails on the code. The persisted record is 30 by 30 with the label \<open>old\<close>
  and no marker is live: \<open>registerRect\<close> with no explicit geometry creates and shows the
  marker 30 by 30, since \<open>DraggableOverlay.__init__\<close> stores the size as given; the floor
  of 50 is applied by \<open>update_size\<close> only. The label \<open>old\<close> is kept. The same call
  once more, now on the live marker, goes through \<open>update_size\<close> and gives 50 by 50.
\<close>

theorem small_record_created_unclamped:
  "map_sum id (\<lambda>m. map_option (\<lambda>ov. (get_position ov, ov_window ov, ov_label ov, ov_visible ov))
                      (rects m ''existing''))
     (registerRect ''existing'' [] None None None None default_style m_small)
   = Inr (Some ((5, 5, 30, 30), Some (30, 30, 5, 5), JStr ''old'', True))
   \<and> map_sum id (\<lambda>m. map_option (\<lambda>ov. (get_position ov, ov_window ov, ov_label ov, ov_visible ov))
                      (rects m ''existing''))
     (bind (registerRect ''existing'' [] None None None None default_style m_small)
           (registerRect ''existing'' [] None None None None default_style))
   = Inr (Some ((5, 5, 50, 50), Some (50, 50, 5, 5), JStr ''old'', True))"
  by (simp add: registerRect_def m_small_def merged_def bind_def create_overlay_def show_def
        DraggableOverlay_def default_style_def create_label_def create_resize_handle_def
        update_position_def update_size_def update_label_def update_geometry_def
        get_position_def Let_def)

section \<open>C9: registering twice\<close>

text \<open>
  Claim C9 fails on the code, by the same defect as claim C1. Registered once with
  width 30 and height 30 the rectangle is 30 by 30; registered twice with the same
  arguments it is 50 by 50: the first call creates the marker with the size as given,
  the second goes through \<open>update_size\<close>, which applies the floor. From 50 by 50 upwards
  the two agree (\<open>registerRect_twice_same\<close>).
\<close>

theorem register_twice_differs_below_floor:
  "map_sum id (\<lambda>m. map_option get_position (rects m ''r1''))
     (registerRect ''r1'' [] (Some 10) (Some 10) (Some 30) (Some 30) default_style m_fresh)
   = Inr (Some (10, 10, 30, 30))
   \<and> map_sum id (\<lambda>m. map_option get_position (rects m ''r1''))
     (bind (registerRect ''r1'' [] (Some 10) (Some 10) (Some 30) (Some 30) default_style m_fresh)
           (registerRect ''r1'' [] (Some 10) (Some 10) (Some 30) (Some 30) default_style))
   = Inr (Some (10, 10, 50, 50))"
  by (simp add: registerRect_def m_fresh_def merged_def bind_def create_overlay_def show_def
        DraggableOverlay_def default_style_def create_label_def create_resize_handle_def
        update_position_def update_size_def update_label_def update_geometry_def
        get_position_def Let_def)

end
